theory Spec2Isabelle
  imports Main "HOL-Library.Word" "HOL-Library.AList" "HOL-Library.Sublist"
begin

unbundle bit_operations_syntax

section \<open>Python values\<close>

text \<open>
  A Python \<open>str\<close> is a sequence of Unicode code points, a \<open>bytes\<close> object a sequence of
  octets. String literals of the source are written \<open>ascii ''...''\<close>.
\<close>

type_synonym pystr = "nat list"
type_synonym byte = "8 word"
type_synonym pybytes = "byte list"

definition ascii :: "string \<Rightarrow> pystr" where
  "ascii cs = map of_char cs"

text \<open>A Python \<open>float\<close> is an IEEE double; the model carries its 64 bits and never computes with it.\<close>

type_synonym float64 = "64 word"

text \<open>
  A decoded JSON document, as \<open>json.loads\<close> returns it: \<open>None\<close>, \<open>bool\<close>, \<open>int\<close>,
  \<open>float\<close>, \<open>str\<close>, \<open>list\<close> and \<open>dict\<close>. A \<open>dict\<close> keeps its insertion order, so it is
  an association list; \<open>map_of\<close> reads it and \<open>AList.update\<close> is the item assignment
  \<open>d[k] = v\<close> (in place for a key that is there, appended otherwise).
\<close>

datatype json =
    JNull
  | JBool bool
  | JInt int
  | JFloat float64
  | JStr pystr
  | JList "json list"
  | JDict "(pystr \<times> json) list"

text \<open>The exceptions the modelled code can raise. \<open>ValueError\<close> and \<open>Exception\<close> carry their argument.\<close>

datatype error =
    TypeError
  | ValueError pystr
  | KeyError
  | AttributeError
  | UnicodeEncodeError
  | UnicodeDecodeError
  | Exception json

section \<open>Library functions used by the signer\<close>

subsection \<open>\<open>str(n)\<close> for an integer\<close>

fun digits :: "nat \<Rightarrow> pystr" where
  "digits n = (if n < 10 then [48 + n] else digits (n div 10) @ [48 + n mod 10])"

declare digits.simps [simp del]

definition str_int :: "int \<Rightarrow> pystr" where
  "str_int i = (if i < 0 then 45 # digits (nat (- i)) else digits (nat i))"

subsection \<open>\<open>str.encode("utf-8")\<close> and \<open>bytes.decode("utf8")\<close>\<close>

text \<open>
  The strict UTF-8 codec: a surrogate code point (\<open>0xD800\<close> to \<open>0xDFFF\<close>) cannot be encoded
  and raises \<open>UnicodeEncodeError\<close>. No \<open>str\<close> holds a code point above \<open>0x10FFFF\<close>.
\<close>

definition utf8_char :: "nat \<Rightarrow> pybytes option" where
  "utf8_char c =
     (if c < 0x80 then Some [of_nat c]
      else if c < 0x800 then Some [of_nat (0xC0 + c div 64), of_nat (0x80 + c mod 64)]
      else if 0xD800 \<le> c \<and> c < 0xE000 then None
      else if c < 0x10000 then
        Some [of_nat (0xE0 + c div 4096), of_nat (0x80 + c div 64 mod 64), of_nat (0x80 + c mod 64)]
      else if c < 0x110000 then
        Some [of_nat (0xF0 + c div 262144), of_nat (0x80 + c div 4096 mod 64),
              of_nat (0x80 + c div 64 mod 64), of_nat (0x80 + c mod 64)]
      else None)"

fun encode_utf8 :: "pystr \<Rightarrow> error + pybytes" where
  "encode_utf8 [] = Inr []"
| "encode_utf8 (c # cs) =
     (case utf8_char c of
        None \<Rightarrow> Inl UnicodeEncodeError
      | Some bs \<Rightarrow> (case encode_utf8 cs of Inl e \<Rightarrow> Inl e | Inr r \<Rightarrow> Inr (bs @ r)))"

definition is_cont :: "byte \<Rightarrow> bool" where
  "is_cont b = (0x80 \<le> b \<and> b < 0xC0)"

definition cont_bits :: "byte \<Rightarrow> nat" where
  "cont_bits b = unat b mod 64"

text \<open>
  The decoder rejects what the encoder never produces: stray continuation bytes, truncated
  and overlong sequences, surrogates and code points above \<open>0x10FFFF\<close>.
\<close>

fun decode_utf8 :: "pybytes \<Rightarrow> error + pystr" where
  "decode_utf8 [] = Inr []"
| "decode_utf8 (b # bs) =
     (if b < 0x80 then
        (case decode_utf8 bs of Inl e \<Rightarrow> Inl e | Inr r \<Rightarrow> Inr (unat b # r))
      else if 0xC0 \<le> b \<and> b < 0xE0 then
        (case bs of
           c1 # r1 \<Rightarrow>
             (let cp = (unat b mod 32) * 64 + cont_bits c1 in
              if is_cont c1 \<and> 0x80 \<le> cp then
                (case decode_utf8 r1 of Inl e \<Rightarrow> Inl e | Inr r \<Rightarrow> Inr (cp # r))
              else Inl UnicodeDecodeError)
         | _ \<Rightarrow> Inl UnicodeDecodeError)
      else if 0xE0 \<le> b \<and> b < 0xF0 then
        (case bs of
           c1 # c2 # r2 \<Rightarrow>
             (let cp = (unat b mod 16) * 4096 + cont_bits c1 * 64 + cont_bits c2 in
              if is_cont c1 \<and> is_cont c2 \<and> 0x800 \<le> cp \<and> \<not> (0xD800 \<le> cp \<and> cp < 0xE000) then
                (case decode_utf8 r2 of Inl e \<Rightarrow> Inl e | Inr r \<Rightarrow> Inr (cp # r))
              else Inl UnicodeDecodeError)
         | _ \<Rightarrow> Inl UnicodeDecodeError)
      else if 0xF0 \<le> b \<and> b < 0xF8 then
        (case bs of
           c1 # c2 # c3 # r3 \<Rightarrow>
             (let cp = (unat b mod 8) * 262144 + cont_bits c1 * 4096 + cont_bits c2 * 64 + cont_bits c3 in
              if is_cont c1 \<and> is_cont c2 \<and> is_cont c3 \<and> 0x10000 \<le> cp \<and> cp < 0x110000 then
                (case decode_utf8 r3 of Inl e \<Rightarrow> Inl e | Inr r \<Rightarrow> Inr (cp # r))
              else Inl UnicodeDecodeError)
         | _ \<Rightarrow> Inl UnicodeDecodeError)
      else Inl UnicodeDecodeError)"

subsection \<open>\<open>base64.b64encode\<close>\<close>

definition b64_alphabet :: "pybytes" where
  "b64_alphabet = map of_char ''ABCDEFGHIJKLMNOPQRSTUVWXYZabcdefghijklmnopqrstuvwxyz0123456789+/''"

definition b64_sym :: "nat \<Rightarrow> byte" where
  "b64_sym i = b64_alphabet ! (i mod 64)"

definition b64_pad :: byte where
  "b64_pad = 61"

fun b64encode :: "pybytes \<Rightarrow> pybytes" where
  "b64encode [] = []"
| "b64encode [a] =
     [b64_sym (unat a div 4), b64_sym (unat a mod 4 * 16), b64_pad, b64_pad]"
| "b64encode [a, b] =
     [b64_sym (unat a div 4), b64_sym (unat a mod 4 * 16 + unat b div 16),
      b64_sym (unat b mod 16 * 4), b64_pad]"
| "b64encode (a # b # c # rest) =
     [b64_sym (unat a div 4), b64_sym (unat a mod 4 * 16 + unat b div 16),
      b64_sym (unat b mod 16 * 4 + unat c div 64), b64_sym (unat c mod 64)] @ b64encode rest"

subsection \<open>\<open>hashlib.sha512\<close>\<close>

text \<open>
  SHA-512 as in FIPS 180-4: the message is padded to a multiple of 128 bytes (a \<open>0x80\<close>
  byte, zero bytes, the bit length in 16 bytes), every block extends to an 80-word schedule
  and runs 80 rounds over eight 64-bit words, all big-endian.
\<close>

type_synonym u64 = "64 word"

definition sha512_init :: "u64 list" where
  "sha512_init =
     [0x6A09E667F3BCC908, 0xBB67AE8584CAA73B, 0x3C6EF372FE94F82B, 0xA54FF53A5F1D36F1,
      0x510E527FADE682D1, 0x9B05688C2B3E6C1F, 0x1F83D9ABFB41BD6B, 0x5BE0CD19137E2179]"

definition sha512_K :: "u64 list" where
  "sha512_K =
     [0x428A2F98D728AE22, 0x7137449123EF65CD, 0xB5C0FBCFEC4D3B2F, 0xE9B5DBA58189DBBC,
      0x3956C25BF348B538, 0x59F111F1B605D019, 0x923F82A4AF194F9B, 0xAB1C5ED5DA6D8118,
      0xD807AA98A3030242, 0x12835B0145706FBE, 0x243185BE4EE4B28C, 0x550C7DC3D5FFB4E2,
      0x72BE5D74F27B896F, 0x80DEB1FE3B1696B1, 0x9BDC06A725C71235, 0xC19BF174CF692694,
      0xE49B69C19EF14AD2, 0xEFBE4786384F25E3, 0x0FC19DC68B8CD5B5, 0x240CA1CC77AC9C65,
      0x2DE92C6F592B0275, 0x4A7484AA6EA6E483, 0x5CB0A9DCBD41FBD4, 0x76F988DA831153B5,
      0x983E5152EE66DFAB, 0xA831C66D2DB43210, 0xB00327C898FB213F, 0xBF597FC7BEEF0EE4,
      0xC6E00BF33DA88FC2, 0xD5A79147930AA725, 0x06CA6351E003826F, 0x142929670A0E6E70,
      0x27B70A8546D22FFC, 0x2E1B21385C26C926, 0x4D2C6DFC5AC42AED, 0x53380D139D95B3DF,
      0x650A73548BAF63DE, 0x766A0ABB3C77B2A8, 0x81C2C92E47EDAEE6, 0x92722C851482353B,
      0xA2BFE8A14CF10364, 0xA81A664BBC423001, 0xC24B8B70D0F89791, 0xC76C51A30654BE30,
      0xD192E819D6EF5218, 0xD69906245565A910, 0xF40E35855771202A, 0x106AA07032BBD1B8,
      0x19A4C116B8D2D0C8, 0x1E376C085141AB53, 0x2748774CDF8EEB99, 0x34B0BCB5E19B48A8,
      0x391C0CB3C5C95A63, 0x4ED8AA4AE3418ACB, 0x5B9CCA4F7763E373, 0x682E6FF3D6B2B8A3,
      0x748F82EE5DEFB2FC, 0x78A5636F43172F60, 0x84C87814A1F0AB72, 0x8CC702081A6439EC,
      0x90BEFFFA23631E28, 0xA4506CEBDE82BDE9, 0xBEF9A3F7B2C67915, 0xC67178F2E372532B,
      0xCA273ECEEA26619C, 0xD186B8C721C0C207, 0xEADA7DD6CDE0EB1E, 0xF57D4F7FEE6ED178,
      0x06F067AA72176FBA, 0x0A637DC5A2C898A6, 0x113F9804BEF90DAE, 0x1B710B35131C471B,
      0x28DB77F523047D84, 0x32CAAB7B40C72493, 0x3C9EBE0A15C9BEBC, 0x431D67C49C100D4C,
      0x4CC5D4BECB3E42B6, 0x597F299CFC657E2A, 0x5FCB6FAB3AD6FAEC, 0x6C44198C4A475817]"

definition be_bytes :: "nat \<Rightarrow> nat \<Rightarrow> pybytes" where
  "be_bytes n x = map (\<lambda>i. of_nat (x div 256 ^ (n - 1 - i))) [0..<n]"

definition word_of_bytes :: "pybytes \<Rightarrow> u64" where
  "word_of_bytes bs = foldl (\<lambda>w b. push_bit 8 w OR ucast b) 0 bs"

definition sha512_pad :: "pybytes \<Rightarrow> pybytes" where
  "sha512_pad msg =
     msg @ [0x80] @ replicate ((239 - length msg mod 128) mod 128) 0 @ be_bytes 16 (8 * length msg)"

definition chunks :: "nat \<Rightarrow> 'a list \<Rightarrow> 'a list list" where
  "chunks n xs = map (\<lambda>i. take n (drop (n * i) xs)) [0..<length xs div n]"

definition small_sigma0 :: "u64 \<Rightarrow> u64" where
  "small_sigma0 x = word_rotr 1 x XOR word_rotr 8 x XOR drop_bit 7 x"

definition small_sigma1 :: "u64 \<Rightarrow> u64" where
  "small_sigma1 x = word_rotr 19 x XOR word_rotr 61 x XOR drop_bit 6 x"

definition big_sigma0 :: "u64 \<Rightarrow> u64" where
  "big_sigma0 x = word_rotr 28 x XOR word_rotr 34 x XOR word_rotr 39 x"

definition big_sigma1 :: "u64 \<Rightarrow> u64" where
  "big_sigma1 x = word_rotr 14 x XOR word_rotr 18 x XOR word_rotr 41 x"

primrec extend_schedule :: "nat \<Rightarrow> u64 list \<Rightarrow> u64 list" where
  "extend_schedule 0 w = w"
| "extend_schedule (Suc n) w =
     (let t = length w
      in extend_schedule n
           (w @ [small_sigma1 (w ! (t - 2)) + w ! (t - 7) + small_sigma0 (w ! (t - 15)) + w ! (t - 16)]))"

definition schedule :: "pybytes \<Rightarrow> u64 list" where
  "schedule block = extend_schedule 64 (map word_of_bytes (chunks 8 block))"

fun sha512_round :: "u64 list \<Rightarrow> u64 \<times> u64 \<Rightarrow> u64 list" where
  "sha512_round [a, b, c, d, e, f, g, h] (k, w) =
     (let T1 = h + big_sigma1 e + ((e AND f) XOR (NOT e AND g)) + k + w;
          T2 = big_sigma0 a + ((a AND b) XOR (a AND c) XOR (b AND c))
      in [T1 + T2, a, b, c, d + T1, e, f, g])"
| "sha512_round st _ = st"

definition compress :: "u64 list \<Rightarrow> pybytes \<Rightarrow> u64 list" where
  "compress st block = map2 (+) st (foldl sha512_round st (zip sha512_K (schedule block)))"

definition sha512 :: "pybytes \<Rightarrow> pybytes" where
  "sha512 msg =
     concat (map (\<lambda>w. be_bytes 8 (unat w)) (foldl compress sha512_init (chunks 128 (sha512_pad msg))))"

subsection \<open>\<open>hmac.new(key, msg, digestmod).digest()\<close>\<close>

text \<open>
  HMAC (RFC 2104) over a digest function \<open>H\<close> with block size \<open>B\<close>: a key longer than a block
  is hashed first, then padded with zero bytes to the block size. The source passes
  \<open>hashlib.sha512\<close>, whose block size is 128.
\<close>

definition hmac_digest :: "(pybytes \<Rightarrow> pybytes) \<Rightarrow> nat \<Rightarrow> pybytes \<Rightarrow> pybytes \<Rightarrow> pybytes" where
  "hmac_digest H B key msg =
     (let k = (if B < length key then H key else key);
          k' = k @ replicate (B - length k) 0
      in H (map (\<lambda>x. x XOR 0x5C) k' @ H (map (\<lambda>x. x XOR 0x36) k' @ msg)))"

definition hmac_sha512 :: "pybytes \<Rightarrow> pybytes \<Rightarrow> pybytes" where
  "hmac_sha512 key msg = hmac_digest sha512 128 key msg"

section \<open>The signer\<close>

text \<open>
  \<open>signMessage(privateKey, message)\<close>: the base64 text of the HMAC-SHA512 digest of the
  encoded message.
\<close>

definition signMessage :: "pybytes \<Rightarrow> pystr \<Rightarrow> error + pystr" where
  "signMessage privateKey message =
     (case encode_utf8 message of
        Inl e \<Rightarrow> Inl e
      | Inr m \<Rightarrow> decode_utf8 (b64encode (hmac_sha512 privateKey m)))"

text \<open>
  \<open>buildHeaders(method, apiKey, privateKey, path, data)\<close>. The clock is read once:
  \<open>time_ms\<close> is the value of \<open>int(time.time() * 1000)\<close> at the call. The header dict is
  in the order of the source's literal.
\<close>

definition buildHeaders ::
  "int \<Rightarrow> pystr \<Rightarrow> pystr \<Rightarrow> pybytes \<Rightarrow> pystr \<Rightarrow> pystr option \<Rightarrow> error + (pystr \<times> pystr) list" where
  "buildHeaders time_ms method apiKey privateKey path data =
     (let now = str_int time_ms;
          message = method @ path @ now;
          message = (case data of None \<Rightarrow> message | Some d \<Rightarrow> message @ d);
          signed = signMessage privateKey message
      in case signed of
           Inl e \<Rightarrow> Inl e
         | Inr signature \<Rightarrow>
             Inr [(ascii ''Accept'', ascii ''application/json''),
                  (ascii ''Accept-Charset'', ascii ''UTF-8''),
                  (ascii ''Content-Type'', ascii ''application/json''),
                  (ascii ''BM-AUTH-APIKEY'', apiKey),
                  (ascii ''BM-AUTH-TIMESTAMP'', now),
                  (ascii ''BM-AUTH-SIGNATURE'', signature)])"

text \<open>
  The canonical message in the specification's words: the concatenation of method, path
  and timestamp, followed by the body when there is one.
\<close>

definition canonical_message :: "pystr \<Rightarrow> pystr \<Rightarrow> pystr \<Rightarrow> pystr option \<Rightarrow> pystr" where
  "canonical_message method path timestamp body =
     method @ path @ timestamp @ (case body of None \<Rightarrow> [] | Some b \<Rightarrow> b)"

section \<open>The response normalizer\<close>

subsection \<open>The store\<close>

text \<open>
  Decoded JSON documents are mutable objects that the functions below receive by
  reference: the store holds them, an address is an index into it. A function that
  returns the object it was given returns its address.
\<close>

type_synonym addr = nat
type_synonym store = "json list"

definition alloc :: "json \<Rightarrow> store \<Rightarrow> addr \<times> store" where
  "alloc v s = (length s, s @ [v])"

subsection \<open>Tables and series\<close>

text \<open>
  The fragment of pandas the source relies on; pandas is a library outside the repository,
  and what is written down here is its documented behaviour: a table built from a list of
  dicts has one column per key and \<open>NaN\<close> where a dict lacks the key, the selection
  \<open>panda[names]\<close> raises \<open>KeyError\<close> for a label that is not there, and \<open>apply\<close> raises
  what the applied function raises.

  A cell holds the Python object it was built from, the \<open>NaN\<close> that fills a missing key, or
  a timestamp (nanoseconds since the epoch, or \<open>NaT\<close>). A \<open>DataFrame\<close> has labelled columns
  of equal length, a \<open>Series\<close> labelled cells.
\<close>

datatype cell = Obj json | NaN | Timestamp int | NaT

record frame =
  columns :: "(pystr \<times> cell list) list"
  nrows :: nat

type_synonym series = "(pystr \<times> cell) list"

datatype panda = DataFrame frame | Series series

text \<open>What a normalizing function returns: the object it was given, or a new table or series.\<close>

datatype normalized = Ref addr | Panda panda

text \<open>
  The pandas functions that stay parameters of the model: \<open>pd.to_numeric\<close> and
  \<open>pd.to_datetime\<close> on one cell (both raise on a value they cannot parse: the source
  calls them with the default \<open>errors="raise"\<close>), and the constructors \<open>pd.DataFrame\<close>
  and \<open>pd.Series\<close> on the input shapes that are not modelled below.
\<close>

record pandas =
  to_numeric :: "cell \<Rightarrow> error + cell"
  to_datetime :: "cell \<Rightarrow> error + cell"
  frame_of :: "json \<Rightarrow> error + frame"
  series_of :: "json \<Rightarrow> error + series"

definition dict_items :: "json \<Rightarrow> (pystr \<times> json) list option" where
  "dict_items v = (case v of JDict kvs \<Rightarrow> Some kvs | _ \<Rightarrow> None)"

text \<open>The keys of all records, each once, in the order of first appearance.\<close>

definition ordered_keys :: "(pystr \<times> json) list list \<Rightarrow> pystr list" where
  "ordered_keys rows = rev (remdups (rev (concat (map (map fst) rows))))"

definition frame_of_records :: "(pystr \<times> json) list list \<Rightarrow> frame" where
  "frame_of_records rows =
     \<lparr>columns = map (\<lambda>k. (k, map (\<lambda>r. case map_of r k of None \<Rightarrow> NaN | Some v \<Rightarrow> Obj v) rows))
                    (ordered_keys rows),
      nrows = length rows\<rparr>"

text \<open>
  \<open>pd.DataFrame(data)\<close> for a list of dicts, one row per dict; the empty list gives the
  table with no column and no row.
\<close>

definition pd_DataFrame :: "pandas \<Rightarrow> json \<Rightarrow> error + frame" where
  "pd_DataFrame P data =
     (case data of
        JList rows \<Rightarrow>
          (case those (map dict_items rows) of
             Some records \<Rightarrow> Inr (frame_of_records records)
           | None \<Rightarrow> frame_of P data)
      | _ \<Rightarrow> frame_of P data)"

text \<open>\<open>pd.Series(data)\<close> for a dict: one labelled cell per key.\<close>

definition pd_Series :: "pandas \<Rightarrow> json \<Rightarrow> error + series" where
  "pd_Series P data =
     (case data of
        JDict kvs \<Rightarrow> Inr (map (\<lambda>(k, v). (k, Obj v)) kvs)
      | _ \<Rightarrow> series_of P data)"

text \<open>\<open>panda[names]\<close>: the selection by a list of labels raises \<open>KeyError\<close> when a label is missing.\<close>

fun getitems :: "(pystr \<times> 'a) list \<Rightarrow> pystr list \<Rightarrow> error + (pystr \<times> 'a) list" where
  "getitems tbl [] = Inr []"
| "getitems tbl (n # ns) =
     (case map_of tbl n of
        None \<Rightarrow> Inl KeyError
      | Some c \<Rightarrow> (case getitems tbl ns of Inl e \<Rightarrow> Inl e | Inr r \<Rightarrow> Inr ((n, c) # r)))"

text \<open>Applying a conversion to every element, in order; the first failure is raised.\<close>

fun traverse :: "('a \<Rightarrow> error + 'b) \<Rightarrow> 'a list \<Rightarrow> error + 'b list" where
  "traverse f [] = Inr []"
| "traverse f (x # xs) =
     (case f x of
        Inl e \<Rightarrow> Inl e
      | Inr y \<Rightarrow> (case traverse f xs of Inl e \<Rightarrow> Inl e | Inr ys \<Rightarrow> Inr (y # ys)))"

text \<open>
  \<open>.apply(f)\<close>: on a table \<open>f\<close> converts each selected column, on a series each selected
  cell.
\<close>

definition apply_columns ::
  "(cell \<Rightarrow> error + cell) \<Rightarrow> (pystr \<times> cell list) list \<Rightarrow> error + (pystr \<times> cell list) list" where
  "apply_columns f sel =
     traverse (\<lambda>(n, cs). case traverse f cs of Inl e \<Rightarrow> Inl e | Inr cs' \<Rightarrow> Inr (n, cs')) sel"

definition apply_cells :: "(cell \<Rightarrow> error + cell) \<Rightarrow> series \<Rightarrow> error + series" where
  "apply_cells f sel = traverse (\<lambda>(n, c). case f c of Inl e \<Rightarrow> Inl e | Inr c' \<Rightarrow> Inr (n, c')) sel"

text \<open>
  \<open>panda[names] = converted\<close>: every selected label gets its converted content. The lists
  of labels in the source are literals without a repeated label.
\<close>

definition setitems :: "(pystr \<times> 'a) list \<Rightarrow> (pystr \<times> 'a) list \<Rightarrow> (pystr \<times> 'a) list" where
  "setitems tbl conv = fold (\<lambda>(n, c). AList.update n c) conv tbl"

text \<open>The statement \<open>panda[names] = panda[names].apply(f)\<close>.\<close>

definition convert_fields :: "(cell \<Rightarrow> error + cell) \<Rightarrow> panda \<Rightarrow> pystr list \<Rightarrow> error + panda" where
  "convert_fields f panda names =
     (case panda of
        DataFrame fr \<Rightarrow>
          (case getitems (columns fr) names of
             Inl e \<Rightarrow> Inl e
           | Inr sel \<Rightarrow>
               (case apply_columns f sel of
                  Inl e \<Rightarrow> Inl e
                | Inr conv \<Rightarrow> Inr (DataFrame (fr\<lparr>columns := setitems (columns fr) conv\<rparr>))))
      | Series sr \<Rightarrow>
          (case getitems sr names of
             Inl e \<Rightarrow> Inl e
           | Inr sel \<Rightarrow>
               (case apply_cells f sel of
                  Inl e \<Rightarrow> Inl e
                | Inr conv \<Rightarrow> Inr (Series (setitems sr conv)))))"

text \<open>
  \<open>process_panda(panda, numeric, time)\<close>. It updates the table or series it is given,
  which its two callers have just built; the model returns the updated one.
\<close>

definition process_panda ::
  "pandas \<Rightarrow> panda \<Rightarrow> pystr list option \<Rightarrow> pystr list option \<Rightarrow> error + panda" where
  "process_panda P panda numeric time =
     (case (case numeric of None \<Rightarrow> Inr panda | Some ns \<Rightarrow> convert_fields (to_numeric P) panda ns) of
        Inl e \<Rightarrow> Inl e
      | Inr panda \<Rightarrow>
          (case time of None \<Rightarrow> Inr panda | Some ts \<Rightarrow> convert_fields (to_datetime P) panda ts))"

text \<open>The test \<open>type(data) == type({}) and "statusCode" in data\<close>.\<close>

definition is_error_message :: "json \<Rightarrow> bool" where
  "is_error_message data =
     (case data of JDict kvs \<Rightarrow> ascii ''statusCode'' \<in> fst ` set kvs | _ \<Rightarrow> False)"

definition make_df ::
  "pandas \<Rightarrow> addr \<Rightarrow> pystr list option \<Rightarrow> pystr list option \<Rightarrow> store \<Rightarrow> (error + normalized) \<times> store" where
  "make_df P data numeric time s =
     (if is_error_message (s ! data) then (Inr (Ref data), s)
      else case pd_DataFrame P (s ! data) of
             Inl e \<Rightarrow> (Inl e, s)
           | Inr fr \<Rightarrow>
               (case process_panda P (DataFrame fr) numeric time of
                  Inl e \<Rightarrow> (Inl e, s)
                | Inr panda \<Rightarrow> (Inr (Panda panda), s)))"

definition make_series ::
  "pandas \<Rightarrow> addr \<Rightarrow> pystr list option \<Rightarrow> pystr list option \<Rightarrow> store \<Rightarrow> (error + normalized) \<times> store" where
  "make_series P data numeric time s =
     (if is_error_message (s ! data) then (Inr (Ref data), s)
      else case pd_Series P (s ! data) of
             Inl e \<Rightarrow> (Inl e, s)
           | Inr sr \<Rightarrow>
               (case process_panda P (Series sr) numeric time of
                  Inl e \<Rightarrow> (Inl e, s)
                | Inr panda \<Rightarrow> (Inr (Panda panda), s)))"

subsection \<open>Order books\<close>

text \<open>The membership test \<open>side in orderbook\<close> on a decoded JSON value.\<close>

definition contains :: "json \<Rightarrow> pystr \<Rightarrow> error + bool" where
  "contains v k =
     (case v of
        JDict kvs \<Rightarrow> Inr (k \<in> fst ` set kvs)
      | JList xs \<Rightarrow> Inr (JStr k \<in> set xs)
      | JStr t \<Rightarrow> Inr (sublist k t)
      | _ \<Rightarrow> Inl TypeError)"

text \<open>Iteration: over the elements of a list, the characters of a string, the keys of a dict.\<close>

definition py_iter :: "json \<Rightarrow> error + json list" where
  "py_iter v =
     (case v of
        JList xs \<Rightarrow> Inr xs
      | JStr t \<Rightarrow> Inr (map (\<lambda>c. JStr [c]) t)
      | JDict kvs \<Rightarrow> Inr (map (\<lambda>(k, _). JStr k) kvs)
      | _ \<Rightarrow> Inl TypeError)"

text \<open>The unpacking \<open>price, amount = pair\<close>: exactly two elements, else \<open>ValueError\<close>.\<close>

definition unpack_pair :: "json \<Rightarrow> error + json \<times> json" where
  "unpack_pair v =
     (case py_iter v of
        Inl e \<Rightarrow> Inl e
      | Inr [price, amount] \<Rightarrow> Inr (price, amount)
      | Inr _ \<Rightarrow> Inl (ValueError (ascii ''unpack'')))"

text \<open>
  The comprehension \<open>[[float(price), float(amount)] for price, amount in ...]\<close>; the builtin
  \<open>float\<close> is the parameter \<open>pyfloat\<close>.
\<close>

fun float_pairs :: "(json \<Rightarrow> error + float64) \<Rightarrow> json list \<Rightarrow> error + json list" where
  "float_pairs pyfloat [] = Inr []"
| "float_pairs pyfloat (v # vs) =
     (case unpack_pair v of
        Inl e \<Rightarrow> Inl e
      | Inr (price, amount) \<Rightarrow>
          (case pyfloat price of
             Inl e \<Rightarrow> Inl e
           | Inr p \<Rightarrow>
               (case pyfloat amount of
                  Inl e \<Rightarrow> Inl e
                | Inr a \<Rightarrow>
                    (case float_pairs pyfloat vs of
                       Inl e \<Rightarrow> Inl e
                     | Inr r \<Rightarrow> Inr (JList [JFloat p, JFloat a] # r)))))"

text \<open>
  The loop \<open>for side in ["bids", "asks"]\<close> of \<open>process_orderbook\<close>. Each round assigns into
  the object at \<open>orderbook\<close>; an exception leaves the assignments made so far.
\<close>

fun process_sides ::
  "(json \<Rightarrow> error + float64) \<Rightarrow> pystr list \<Rightarrow> addr \<Rightarrow> store \<Rightarrow> (error + unit) \<times> store" where
  "process_sides pyfloat [] orderbook s = (Inr (), s)"
| "process_sides pyfloat (side # sides) orderbook s =
     (case contains (s ! orderbook) side of
        Inl e \<Rightarrow> (Inl e, s)
      | Inr False \<Rightarrow> process_sides pyfloat sides orderbook s
      | Inr True \<Rightarrow>
          (case s ! orderbook of
             JDict kvs \<Rightarrow>
               (case map_of kvs side of
                  None \<Rightarrow> (Inl KeyError, s)
                | Some v \<Rightarrow>
                    (case py_iter v of
                       Inl e \<Rightarrow> (Inl e, s)
                     | Inr xs \<Rightarrow>
                         (case float_pairs pyfloat xs of
                            Inl e \<Rightarrow> (Inl e, s)
                          | Inr ys \<Rightarrow>
                              process_sides pyfloat sides orderbook
                                (s[orderbook := JDict (AList.update side (JList ys) kvs)]))))
           | _ \<Rightarrow> (Inl TypeError, s)))"

definition process_orderbook ::
  "(json \<Rightarrow> error + float64) \<Rightarrow> addr \<Rightarrow> store \<Rightarrow> (error + addr) \<times> store" where
  "process_orderbook pyfloat orderbook s =
     (case process_sides pyfloat [ascii ''bids'', ascii ''asks''] orderbook s of
        (Inl e, s') \<Rightarrow> (Inl e, s')
      | (Inr _, s') \<Rightarrow> (Inr orderbook, s'))"

section \<open>The client\<close>

text \<open>
  A \<open>BTCMarkets\<close> object after construction: the API key, the decoded private key and the
  error policy.
\<close>

record client =
  apiKey :: pystr
  privateKey :: pybytes
  exception_on_error :: bool

text \<open>
  An HTTP request as it is handed to \<open>urlopen\<close>. \<open>Request\<close> is built with the body as a
  \<open>str\<close>; for POST and PUT \<open>urlopen\<close> gets the encoded bytes in its \<open>data\<close> argument,
  which replace it. The headers are the dict that \<open>buildHeaders\<close> returned, with the names
  as written there.
\<close>

datatype body = StrBody pystr | BytesBody pybytes

record request =
  req_url :: pystr
  req_data :: "body option"
  req_headers :: "(pystr \<times> pystr) list"
  req_method :: pystr

text \<open>
  What \<open>urlopen\<close> does with a request: a response to read, an \<open>HTTPError\<close> with a status
  code and a body to read, or a plain \<open>URLError\<close> (that has neither).
\<close>

datatype reply = Response pybytes | HTTPError int pybytes | URLError

text \<open>
  The outside world of one call, as parameters: the reading of the
  clock (\<open>int(time.time() * 1000)\<close>), \<open>json.dumps\<close>, \<open>json.loads\<close> on a \<open>str\<close> and on
  \<open>bytes\<close>, \<open>urllib.parse.urlencode\<close>, the server behind \<open>urlopen\<close>, and \<open>str.upper\<close>.
\<close>

record library =
  clock_ms :: int
  json_dumps :: "json \<Rightarrow> pystr"
  json_loads :: "pystr \<Rightarrow> error + json"
  json_loads_bytes :: "pybytes \<Rightarrow> error + json"
  urlencode :: "(pystr \<times> json) list \<Rightarrow> pystr"
  urlopen :: "request \<Rightarrow> reply"
  str_upper :: "pystr \<Rightarrow> pystr"

text \<open>
  The outcome of a call: what it returns or raises, the requests it handed to \<open>urlopen\<close>,
  and what it printed.
\<close>

record 'a outcome =
  returned :: "error + 'a"
  requests :: "request list"
  printed :: "pystr list"

definition base_url :: pystr where
  "base_url = ascii ''https://api.btcmarkets.net''"

text \<open>\<open>handle_error(msg)\<close>; it returns \<open>None\<close>.\<close>

definition handle_error :: "client \<Rightarrow> pystr \<Rightarrow> json outcome" where
  "handle_error self msg =
     (let msg = ascii ''No market_ids provided'' in
      if exception_on_error self then
        \<lparr>returned = Inl (ValueError msg), requests = [], printed = []\<rparr>
      else
        \<lparr>returned = Inr JNull, requests = [], printed = [msg]\<rparr>)"

text \<open>The item assignment \<open>errObject["statusCode"] = e.code\<close> on a decoded JSON value.\<close>

definition setitem :: "json \<Rightarrow> pystr \<Rightarrow> json \<Rightarrow> error + json" where
  "setitem obj k v = (case obj of JDict kvs \<Rightarrow> Inr (JDict (AList.update k v kvs)) | _ \<Rightarrow> Inl TypeError)"

text \<open>
  The body of the \<open>try\<close> statement of \<open>makeHttpCall\<close> after \<open>urlopen\<close>, and its
  \<open>except URLError\<close> clause. Only \<open>URLError\<close> is caught; a plain \<open>URLError\<close> has no
  \<open>read\<close>.
\<close>

definition read_reply :: "library \<Rightarrow> client \<Rightarrow> reply \<Rightarrow> error + json" where
  "read_reply L self r =
     (case r of
        Response b \<Rightarrow> (case decode_utf8 b of Inl e \<Rightarrow> Inl e | Inr t \<Rightarrow> json_loads L t)
      | HTTPError code b \<Rightarrow>
          (case json_loads_bytes L b of
             Inl e \<Rightarrow> Inl e
           | Inr errObject \<Rightarrow>
               (case setitem errObject (ascii ''statusCode'') (JInt code) of
                  Inl e \<Rightarrow> Inl e
                | Inr errObject \<Rightarrow>
                    if exception_on_error self then Inl (Exception errObject) else Inr errObject))
      | URLError \<Rightarrow> Inl AttributeError)"

text \<open>
  \<open>makeHttpCall(method, path, query_params=None, data=None)\<close>. The two optional
  arguments are any values, \<open>JNull\<close> being \<open>None\<close>. For a method other than POST and PUT
  the request goes to \<open>urlopen\<close> as \<open>Request\<close> built it; when it has a body, that body is a
  \<open>str\<close>, which \<open>urlopen\<close> refuses with \<open>TypeError\<close>.
\<close>

definition makeHttpCall ::
  "library \<Rightarrow> client \<Rightarrow> pystr \<Rightarrow> pystr \<Rightarrow> json \<Rightarrow> json \<Rightarrow> json outcome" where
  "makeHttpCall L self method path query_params data =
     (let data = (if data \<noteq> JNull then Some (json_dumps L data) else None) in
      case buildHeaders (clock_ms L) method (apiKey self) (privateKey self) path data of
        Inl e \<Rightarrow> \<lparr>returned = Inl e, requests = [], printed = []\<rparr>
      | Inr headers \<Rightarrow>
          (let path = (case query_params of
                         JDict kvs \<Rightarrow> path @ ascii ''?'' @ urlencode L kvs
                       | _ \<Rightarrow> path);
               http_request = \<lparr>req_url = base_url @ path, req_data = map_option StrBody data,
                               req_headers = headers, req_method = method\<rparr>
           in if method = ascii ''POST'' \<or> method = ascii ''PUT'' then
                (case data of
                   None \<Rightarrow> \<lparr>returned = Inl TypeError, requests = [], printed = []\<rparr>
                 | Some d \<Rightarrow>
                     (case encode_utf8 d of
                        Inl e \<Rightarrow> \<lparr>returned = Inl e, requests = [], printed = []\<rparr>
                      | Inr b \<Rightarrow>
                          (let sent = http_request\<lparr>req_data := Some (BytesBody b)\<rparr>
                           in \<lparr>returned = read_reply L self (urlopen L sent),
                               requests = [sent], printed = []\<rparr>)))
              else
                (case data of
                   None \<Rightarrow> \<lparr>returned = read_reply L self (urlopen L http_request),
                            requests = [http_request], printed = []\<rparr>
                 | Some d \<Rightarrow> \<lparr>returned = Inl TypeError, requests = [http_request], printed = []\<rparr>)))"

text \<open>\<open>sep.join(xs)\<close>.\<close>

fun join :: "pystr \<Rightarrow> pystr list \<Rightarrow> pystr" where
  "join sep [] = []"
| "join sep [x] = x"
| "join sep (x # y # ys) = x @ sep @ join sep (y # ys)"

text \<open>The path that \<open>tickers\<close> passes to \<open>makeHttpCall\<close>.\<close>

definition tickers_path :: "pystr list \<Rightarrow> pystr" where
  "tickers_path market_ids =
     ascii ''/v3/markets/tickers?'' @ ascii ''marketId='' @ join (ascii ''&marketId='') market_ids"

text \<open>
  \<open>tickers(market_ids)\<close>. The decoded response is a new object of the store; the result
  is \<open>None\<close>, that object, or a table.
\<close>

definition tickers ::
  "library \<Rightarrow> pandas \<Rightarrow> client \<Rightarrow> pystr list \<Rightarrow> store \<Rightarrow> normalized option outcome \<times> store" where
  "tickers L P self market_ids s =
     (if length market_ids = 0 then
        (let out = handle_error self (ascii ''tickers called with no market_ids provided'')
         in (\<lparr>returned = (case returned out of Inl e \<Rightarrow> Inl e | Inr _ \<Rightarrow> Inr None),
              requests = requests out, printed = printed out\<rparr>, s))
      else
        (let out = makeHttpCall L self (ascii ''GET'') (tickers_path market_ids) JNull JNull
         in case returned out of
              Inl e \<Rightarrow> (\<lparr>returned = Inl e, requests = requests out, printed = printed out\<rparr>, s)
            | Inr response \<Rightarrow>
                (case alloc response s of
                   (data, s1) \<Rightarrow>
                     (case make_df P data
                             (Some [ascii ''bestBid'', ascii ''bestAsk'', ascii ''lastPrice'',
                                    ascii ''volume24h'', ascii ''volumeQte24h'', ascii ''price24h'',
                                    ascii ''pricePct24h'', ascii ''low24h'', ascii ''high24h''])
                             (Some [ascii ''timestamp'']) s1 of
                        (r, s2) \<Rightarrow>
                          (\<lparr>returned = (case r of Inl e \<Rightarrow> Inl e | Inr v \<Rightarrow> Inr (Some v)),
                            requests = requests out, printed = printed out\<rparr>, s2)))))"

text \<open>The call that \<open>orderbooks(market_ids)\<close> issues, its first statement.\<close>

definition orderbooks_path :: "pystr list \<Rightarrow> pystr" where
  "orderbooks_path market_ids =
     ascii ''/v3/markets/orderbooks?'' @ ascii ''marketId='' @ join (ascii ''&marketId='') market_ids"

definition orderbooks_call :: "library \<Rightarrow> client \<Rightarrow> pystr list \<Rightarrow> json outcome" where
  "orderbooks_call L self market_ids =
     makeHttpCall L self (ascii ''GET'') (orderbooks_path market_ids) JNull JNull"

text \<open>
  \<open>market_trades\<close> up to its call of \<open>makeHttpCall\<close>: one of the methods that pass their
  filters as \<open>query_params\<close>. An absent filter is \<open>None\<close>.
\<close>

definition market_trades_call ::
  "library \<Rightarrow> client \<Rightarrow> pystr \<Rightarrow> json \<Rightarrow> json \<Rightarrow> json \<Rightarrow> json outcome" where
  "market_trades_call L self market_id before after limit =
     (let query_params = [(ascii ''before'', before), (ascii ''after'', after), (ascii ''limit'', limit)];
          query_params = filter (\<lambda>(k, v). v \<noteq> JNull) query_params
      in makeHttpCall L self (ascii ''GET'') (ascii ''/v3/markets/'' @ market_id @ ascii ''/trades'')
           (JDict query_params) JNull)"

text \<open>
  \<open>place_order\<close>. \<open>order_type\<close> and \<open>selfTrade\<close> are strings; the other arguments are
  any values, \<open>None\<close> where the caller leaves them out.
\<close>

definition place_order ::
  "library \<Rightarrow> client \<Rightarrow> json \<Rightarrow> json \<Rightarrow> json \<Rightarrow> json \<Rightarrow> pystr \<Rightarrow> json \<Rightarrow> json \<Rightarrow> json \<Rightarrow> json
     \<Rightarrow> pystr \<Rightarrow> json \<Rightarrow> json outcome" where
  "place_order L self market_id price amount side order_type triggerPrice targetAmount timeInForce
       postOnly selfTrade client_order_id =
     (if order_type \<in> set [ascii ''Stop'', ascii ''Stop Limit'', ascii ''Take Profit'']
         \<and> triggerPrice = JNull then
        handle_error self (order_type @ ascii '' requires triggerPrice'')
      else
        (let selfTrade = str_upper L selfTrade in
         if selfTrade \<notin> set [ascii ''P'', ascii ''A''] then
           handle_error self (selfTrade @ ascii '' must be either 'P' (prevent) or 'A' (allow)'')
         else
           (let data = [(ascii ''marketId'', market_id),
                        (ascii ''price'', price),
                        (ascii ''amount'', amount),
                        (ascii ''type'', JStr order_type),
                        (ascii ''side'', side),
                        (ascii ''selfTrade'', JStr selfTrade),
                        (ascii ''timeInForce'', timeInForce),
                        (ascii ''postOnly'', postOnly),
                        (ascii ''triggerPrice'', triggerPrice),
                        (ascii ''targetAmount'', targetAmount),
                        (ascii ''clientOrderId'', client_order_id)];
                data = filter (\<lambda>(k, v). v \<noteq> JNull) data
            in makeHttpCall L self (ascii ''POST'') (ascii ''/v3/orders'') JNull
                 (JStr (json_dumps L (JDict data))))))"

section \<open>Vocabulary of the specification\<close>

text \<open>A table holds a cell under a field when the cell is in that column; a series, when it is the cell of that label.\<close>

definition holds :: "panda \<Rightarrow> pystr \<Rightarrow> cell \<Rightarrow> bool" where
  "holds panda f c =
     (case panda of
        DataFrame fr \<Rightarrow> (case map_of (columns fr) f of None \<Rightarrow> False | Some cs \<Rightarrow> c \<in> set cs)
      | Series sr \<Rightarrow> map_of sr f = Some c)"

text \<open>
  A \<open>[price, amount]\<close> pair of strings and the pair of floating-point numbers that
  \<open>float\<close> parses them to; a side of an order book and its conversion, pair by pair.
\<close>

definition converted_pair :: "(json \<Rightarrow> error + float64) \<Rightarrow> json \<Rightarrow> json \<Rightarrow> bool" where
  "converted_pair pyfloat v w =
     (\<exists>p q x y. v = JList [JStr p, JStr q] \<and> pyfloat (JStr p) = Inr x \<and> pyfloat (JStr q) = Inr y
        \<and> w = JList [JFloat x, JFloat y])"

definition converted_side :: "(json \<Rightarrow> error + float64) \<Rightarrow> json \<Rightarrow> json \<Rightarrow> bool" where
  "converted_side pyfloat v w =
     (\<exists>vs ws. v = JList vs \<and> w = JList ws \<and> list_all2 (converted_pair pyfloat) vs ws)"

section \<open>An example environment\<close>

text \<open>
  Instances of the parameters, for evaluating the model on concrete calls. Each agrees with
  the library function it stands for on the values listed in it, and raises elsewhere.
\<close>

definition example_float :: "json \<Rightarrow> error + float64" where
  "example_float v =
     (case v of
        JStr t \<Rightarrow>
          (case map_of [(ascii ''0.2677'', 0x3FD121FF2E48E8A7), (ascii ''5665.85'', 0x40B621D99999999A),
                        (ascii ''0.2612'', 0x3FD0B780346DC5D6), (ascii ''17847.84'', 0x40D16DF5C28F5C29)] t of
             Some x \<Rightarrow> Inr x
           | None \<Rightarrow> Inl (ValueError (ascii ''could not convert string to float'')))
      | JFloat x \<Rightarrow> Inr x
      | _ \<Rightarrow> Inl TypeError)"

definition example_to_numeric :: "cell \<Rightarrow> error + cell" where
  "example_to_numeric c =
     (case c of
        Obj v \<Rightarrow> (case example_float v of Inl e \<Rightarrow> Inl (ValueError (ascii ''Unable to parse string'')) | Inr x \<Rightarrow> Inr (Obj (JFloat x)))
      | _ \<Rightarrow> Inr c)"

definition example_to_datetime :: "cell \<Rightarrow> error + cell" where
  "example_to_datetime c =
     (case c of
        Obj v \<Rightarrow>
          (if v = JStr (ascii ''2021-01-01T00:00:00Z'') then Inr (Timestamp 1609459200000000000)
           else Inl (ValueError (ascii ''Unknown datetime string format'')))
      | NaN \<Rightarrow> Inr NaT
      | _ \<Rightarrow> Inr c)"

definition example_pandas :: pandas where
  "example_pandas =
     \<lparr>to_numeric = example_to_numeric,
      to_datetime = example_to_datetime,
      frame_of = (\<lambda>v. Inl (ValueError (ascii ''DataFrame constructor not properly called!''))),
      series_of = (\<lambda>v. Inl TypeError)\<rparr>"

definition example_library :: library where
  "example_library =
     \<lparr>clock_ms = 1700000000123,
      json_dumps = (\<lambda>v. if v = JStr (ascii ''{}'') then [34, 123, 125, 34] else ascii ''null''),
      json_loads = (\<lambda>t. if t = ascii ''[]'' then Inr (JList []) else Inl (ValueError (ascii ''JSONDecodeError''))),
      json_loads_bytes = (\<lambda>b. Inl (ValueError (ascii ''JSONDecodeError''))),
      urlencode = (\<lambda>kvs. if kvs = [(ascii ''limit'', JInt 5)] then ascii ''limit=5'' else []),
      urlopen = (\<lambda>r. Response (map of_char ''[]'')),
      str_upper = map (\<lambda>c. if 97 \<le> c \<and> c \<le> 122 then c - 32 else c)\<rparr>"

definition example_client :: client where
  "example_client = \<lparr>apiKey = ascii ''key'', privateKey = [1, 2, 3], exception_on_error = True\<rparr>"

section \<open>Properties of the signer\<close>

lemma b64_alphabet_ascii: "list_all (\<lambda>b. b < 0x80) b64_alphabet"
  unfolding b64_alphabet_def by simp

lemma b64_sym_ascii: "b64_sym i < 0x80"
proof -
  have "i mod 64 < length b64_alphabet" by (simp add: b64_alphabet_def)
  then show ?thesis
    using b64_alphabet_ascii unfolding b64_sym_def list_all_length by blast
qed

lemma b64encode_ascii: "list_all (\<lambda>b. b < 0x80) (b64encode xs)"
  by (induction xs rule: b64encode.induct) (simp_all add: b64_sym_ascii b64_pad_def)

lemma decode_utf8_ascii: "list_all (\<lambda>b. b < 0x80) bs \<Longrightarrow> decode_utf8 bs = Inr (map unat bs)"
  by (induction bs) simp_all

lemma decode_b64encode: "decode_utf8 (b64encode xs) = Inr (map unat (b64encode xs))"
  by (rule decode_utf8_ascii [OF b64encode_ascii])

lemma encode_utf8_append:
  "encode_utf8 (xs @ ys) =
     (case encode_utf8 xs of
        Inl e \<Rightarrow> Inl e
      | Inr a \<Rightarrow> (case encode_utf8 ys of Inl e \<Rightarrow> Inl e | Inr b \<Rightarrow> Inr (a @ b)))"
  by (induction xs) (auto split: option.splits sum.splits)

lemma signMessage_encodable:
  "encode_utf8 message = Inr m \<Longrightarrow>
   signMessage key message = Inr (map unat (b64encode (hmac_sha512 key m)))"
  by (simp add: signMessage_def decode_b64encode)

lemma signMessage_unencodable:
  "encode_utf8 message = Inl e \<Longrightarrow> signMessage key message = Inl e"
  by (simp add: signMessage_def)

lemma buildHeaders_canonical:
  "buildHeaders time_ms method akey key path body =
     (case signMessage key (canonical_message method path (str_int time_ms) body) of
        Inl e \<Rightarrow> Inl e
      | Inr signature \<Rightarrow>
          Inr [(ascii ''Accept'', ascii ''application/json''),
               (ascii ''Accept-Charset'', ascii ''UTF-8''),
               (ascii ''Content-Type'', ascii ''application/json''),
               (ascii ''BM-AUTH-APIKEY'', akey),
               (ascii ''BM-AUTH-TIMESTAMP'', str_int time_ms),
               (ascii ''BM-AUTH-SIGNATURE'', signature)])"
  unfolding buildHeaders_def Let_def canonical_message_def
  by (simp split: option.splits)

lemma header_lookups:
  "map_of [(ascii ''Accept'', a), (ascii ''Accept-Charset'', b), (ascii ''Content-Type'', c),
           (ascii ''BM-AUTH-APIKEY'', d), (ascii ''BM-AUTH-TIMESTAMP'', t),
           (ascii ''BM-AUTH-SIGNATURE'', g)] (ascii ''BM-AUTH-TIMESTAMP'') = Some t"
  "map_of [(ascii ''Accept'', a), (ascii ''Accept-Charset'', b), (ascii ''Content-Type'', c),
           (ascii ''BM-AUTH-APIKEY'', d), (ascii ''BM-AUTH-TIMESTAMP'', t),
           (ascii ''BM-AUTH-SIGNATURE'', g)] (ascii ''BM-AUTH-SIGNATURE'') = Some g"
  by (simp_all add: ascii_def)

lemma buildHeaders_unencodable:
  "encode_utf8 (canonical_message method path (str_int time_ms) body) = Inl e \<Longrightarrow>
   buildHeaders time_ms method akey key path body = Inl e"
  by (simp add: buildHeaders_canonical signMessage_unencodable)

text \<open>
  C1. The signature that \<open>buildHeaders\<close> emits is the base64 text, decoded as UTF-8, of the
  HMAC-SHA512 digest, keyed by the private key bytes, of the UTF-8 encoding of the
  canonical message: method, path, timestamp, then the body when there is one.
\<close>

theorem buildHeaders_signature:
  assumes "encode_utf8 (canonical_message method path (str_int time_ms) body) = Inr m"
  shows "\<exists>headers signature.
           buildHeaders time_ms method akey key path body = Inr headers
         \<and> map_of headers (ascii ''BM-AUTH-SIGNATURE'') = Some signature
         \<and> decode_utf8 (b64encode (hmac_digest sha512 128 key m)) = Inr signature"
proof -
  let ?signature = "map unat (b64encode (hmac_sha512 key m))"
  have "buildHeaders time_ms method akey key path body =
          Inr [(ascii ''Accept'', ascii ''application/json''),
               (ascii ''Accept-Charset'', ascii ''UTF-8''),
               (ascii ''Content-Type'', ascii ''application/json''),
               (ascii ''BM-AUTH-APIKEY'', akey),
               (ascii ''BM-AUTH-TIMESTAMP'', str_int time_ms),
               (ascii ''BM-AUTH-SIGNATURE'', ?signature)]"
    by (simp add: buildHeaders_canonical signMessage_encodable [OF assms])
  moreover have "decode_utf8 (b64encode (hmac_digest sha512 128 key m)) = Inr ?signature"
    by (simp add: decode_b64encode hmac_sha512_def)
  moreover note header_lookups(2) [of "ascii ''application/json''" "ascii ''UTF-8''"
      "ascii ''application/json''" akey "str_int time_ms" ?signature]
  ultimately show ?thesis
    by (intro exI conjI)
qed

theorem buildHeaders_signature_witness:
  "encode_utf8 (canonical_message (ascii ''POST'') (ascii ''/v3/orders'') (str_int 1700000000123)
                  (Some (ascii ''{}'')))
     = Inr (map of_char ''POST/v3/orders1700000000123{}'')
   \<and> (\<exists>headers signature.
          buildHeaders 1700000000123 (ascii ''POST'') (ascii ''key'') [1, 2, 3] (ascii ''/v3/orders'')
            (Some (ascii ''{}'')) = Inr headers
        \<and> map_of headers (ascii ''BM-AUTH-SIGNATURE'') = Some signature
        \<and> decode_utf8 (b64encode (hmac_digest sha512 128 [1, 2, 3]
                                     (map of_char ''POST/v3/orders1700000000123{}''))) = Inr signature)"
proof -
  have h: "encode_utf8 (canonical_message (ascii ''POST'') (ascii ''/v3/orders'') (str_int 1700000000123)
                          (Some (ascii ''{}'')))
             = Inr (map of_char ''POST/v3/orders1700000000123{}'')"
    by (simp add: canonical_message_def ascii_def str_int_def digits.simps utf8_char_def)
  show ?thesis
    using h buildHeaders_signature [OF h, of "ascii ''key''" "[1, 2, 3]"] by (rule conjI)
qed

text \<open>
  C3. Whenever \<open>buildHeaders\<close> returns, the timestamp under \<open>BM-AUTH-TIMESTAMP\<close> is the
  timestamp inside the canonical message whose signature is under \<open>BM-AUTH-SIGNATURE\<close>:
  both are the one reading of the clock.
\<close>

theorem buildHeaders_timestamp:
  assumes "buildHeaders time_ms method akey key path body = Inr headers"
  shows "\<exists>timestamp signature.
           map_of headers (ascii ''BM-AUTH-TIMESTAMP'') = Some timestamp
         \<and> map_of headers (ascii ''BM-AUTH-SIGNATURE'') = Some signature
         \<and> signMessage key (canonical_message method path timestamp body) = Inr signature
         \<and> timestamp = str_int time_ms"
proof (cases "signMessage key (canonical_message method path (str_int time_ms) body)")
  case (Inl e)
  with assms show ?thesis by (simp add: buildHeaders_canonical)
next
  case (Inr signature)
  with assms have "headers =
          [(ascii ''Accept'', ascii ''application/json''),
           (ascii ''Accept-Charset'', ascii ''UTF-8''),
           (ascii ''Content-Type'', ascii ''application/json''),
           (ascii ''BM-AUTH-APIKEY'', akey),
           (ascii ''BM-AUTH-TIMESTAMP'', str_int time_ms),
           (ascii ''BM-AUTH-SIGNATURE'', signature)]"
    by (simp add: buildHeaders_canonical)
  then have "map_of headers (ascii ''BM-AUTH-TIMESTAMP'') = Some (str_int time_ms)"
    and "map_of headers (ascii ''BM-AUTH-SIGNATURE'') = Some signature"
    by (simp_all only: header_lookups)
  with Inr show ?thesis
    by (intro exI conjI) simp_all
qed

theorem buildHeaders_timestamp_witness:
  "\<exists>headers timestamp signature.
     buildHeaders 1700000000123 (ascii ''GET'') (ascii ''key'') [1, 2, 3] (ascii ''/v3/orders'') None
       = Inr headers
   \<and> map_of headers (ascii ''BM-AUTH-TIMESTAMP'') = Some timestamp
   \<and> map_of headers (ascii ''BM-AUTH-SIGNATURE'') = Some signature
   \<and> signMessage [1, 2, 3] (canonical_message (ascii ''GET'') (ascii ''/v3/orders'') timestamp None)
       = Inr signature
   \<and> timestamp = ascii ''1700000000123''"
proof -
  have e: "encode_utf8 (canonical_message (ascii ''GET'') (ascii ''/v3/orders'') (str_int 1700000000123) None)
             = Inr (map of_char ''GET/v3/orders1700000000123'')"
    by (simp add: canonical_message_def ascii_def str_int_def digits.simps utf8_char_def)
  have t: "str_int 1700000000123 = ascii ''1700000000123''"
    by (simp add: ascii_def str_int_def digits.simps)
  obtain headers where
    h: "buildHeaders 1700000000123 (ascii ''GET'') (ascii ''key'') [1, 2, 3] (ascii ''/v3/orders'') None
          = Inr headers"
    by (simp add: buildHeaders_canonical signMessage_encodable [OF e])
  from buildHeaders_timestamp [OF h] h show ?thesis
    unfolding t by blast
qed

section \<open>Properties of the normalizer\<close>

lemma is_error_message_dict:
  "is_error_message (JDict kvs) \<longleftrightarrow> ascii ''statusCode'' \<in> fst ` set kvs"
  by (simp add: is_error_message_def)

lemma pd_DataFrame_empty: "pd_DataFrame P (JList []) = Inr \<lparr>columns = [], nrows = 0\<rparr>"
  by (simp add: pd_DataFrame_def frame_of_records_def ordered_keys_def)

lemma convert_fields_no_names: "convert_fields f panda [] = Inr panda"
  by (cases panda) (simp_all add: convert_fields_def apply_columns_def apply_cells_def setitems_def)

lemma convert_fields_no_columns:
  "convert_fields f (DataFrame \<lparr>columns = [], nrows = n\<rparr>) (x # xs) = Inl KeyError"
  by (simp add: convert_fields_def)

text \<open>
  C5. For a dict that has the key \<open>statusCode\<close>, \<open>make_df\<close> and \<open>make_series\<close> return the
  very object they were given, raise nothing and change nothing, whatever field lists are
  declared.
\<close>

theorem error_message_returned_unmodified:
  assumes "s ! d = JDict kvs" and "ascii ''statusCode'' \<in> fst ` set kvs"
  shows "make_df P d numeric time s = (Inr (Ref d), s)
       \<and> make_series P d numeric time s = (Inr (Ref d), s)"
  using assms by (simp add: make_df_def make_series_def is_error_message_dict)

theorem error_message_returned_unmodified_witness:
  "[JDict [(ascii ''statusCode'', JInt 429), (ascii ''message'', JStr (ascii ''rate limited''))]] ! 0
     = JDict [(ascii ''statusCode'', JInt 429), (ascii ''message'', JStr (ascii ''rate limited''))]
   \<and> ascii ''statusCode''
       \<in> fst ` set [(ascii ''statusCode'', JInt 429), (ascii ''message'', JStr (ascii ''rate limited''))]
   \<and> make_df example_pandas 0 (Some [ascii ''statusCode'', ascii ''message'']) (Some [ascii ''message''])
       [JDict [(ascii ''statusCode'', JInt 429), (ascii ''message'', JStr (ascii ''rate limited''))]]
     = (Inr (Ref 0),
        [JDict [(ascii ''statusCode'', JInt 429), (ascii ''message'', JStr (ascii ''rate limited''))]])
   \<and> make_series example_pandas 0 (Some [ascii ''statusCode'', ascii ''message'']) (Some [ascii ''message''])
       [JDict [(ascii ''statusCode'', JInt 429), (ascii ''message'', JStr (ascii ''rate limited''))]]
     = (Inr (Ref 0),
        [JDict [(ascii ''statusCode'', JInt 429), (ascii ''message'', JStr (ascii ''rate limited''))]])"
proof -
  let ?kvs = "[(ascii ''statusCode'', JInt 429), (ascii ''message'', JStr (ascii ''rate limited''))]"
  have a: "[JDict ?kvs] ! 0 = JDict ?kvs" by simp
  have b: "ascii ''statusCode'' \<in> fst ` set ?kvs" by simp
  show ?thesis
    using a b error_message_returned_unmodified [OF a b, of example_pandas
        "Some [ascii ''statusCode'', ascii ''message'']" "Some [ascii ''message'']"]
    by (intro conjI) simp_all
qed

lemma traverse_fails: "x \<in> set xs \<Longrightarrow> f x = Inl e \<Longrightarrow> \<exists>e'. traverse f xs = Inl e'"
  by (induction xs) (auto split: sum.splits)

lemma getitems_member:
  "getitems tbl names = Inr sel \<Longrightarrow> n \<in> set names \<Longrightarrow> map_of tbl n = Some c \<Longrightarrow> (n, c) \<in> set sel"
  by (induction names arbitrary: sel) (auto split: option.splits sum.splits)

lemma getitems_labels: "getitems tbl names = Inr sel \<Longrightarrow> map fst sel = names"
  by (induction names arbitrary: sel) (auto split: option.splits sum.splits)

lemma apply_columns_labels: "apply_columns f sel = Inr conv \<Longrightarrow> map fst conv = map fst sel"
  unfolding apply_columns_def
  by (induction sel arbitrary: conv) (auto split: sum.splits)

lemma apply_cells_labels: "apply_cells f sel = Inr conv \<Longrightarrow> map fst conv = map fst sel"
  unfolding apply_cells_def
  by (induction sel arbitrary: conv) (auto split: sum.splits)

lemma map_of_setitems_other:
  "n \<notin> fst ` set conv \<Longrightarrow> map_of (setitems tbl conv) n = map_of tbl n"
  unfolding setitems_def
  by (induction conv arbitrary: tbl) (auto simp: update_conv')

lemma convert_fields_fails:
  assumes "holds panda n c" and "n \<in> set names" and "f c = Inl e"
  shows "\<exists>e'. convert_fields f panda names = Inl e'"
proof (cases panda)
  case (DataFrame fr)
  with assms(1) obtain cs where cs: "map_of (columns fr) n = Some cs" "c \<in> set cs"
    by (auto simp: holds_def split: option.splits)
  show ?thesis
  proof (cases "getitems (columns fr) names")
    case (Inl e')
    with DataFrame show ?thesis by (simp add: convert_fields_def)
  next
    case (Inr sel)
    have "(n, cs) \<in> set sel"
      using getitems_member [OF Inr assms(2) cs(1)] .
    moreover have "\<exists>e'. traverse f cs = Inl e'"
      using cs(2) assms(3) by (rule traverse_fails)
    ultimately have "\<exists>e'. apply_columns f sel = Inl e'"
      unfolding apply_columns_def
      by (auto intro!: traverse_fails [where x = "(n, cs)"])
    with DataFrame Inr show ?thesis by (auto simp: convert_fields_def)
  qed
next
  case (Series sr)
  with assms(1) have c: "map_of sr n = Some c"
    by (simp add: holds_def)
  show ?thesis
  proof (cases "getitems sr names")
    case (Inl e')
    with Series show ?thesis by (simp add: convert_fields_def)
  next
    case (Inr sel)
    have "(n, c) \<in> set sel"
      using getitems_member [OF Inr assms(2) c] .
    then have "\<exists>e'. apply_cells f sel = Inl e'"
      unfolding apply_cells_def
      using assms(3) by (auto intro!: traverse_fails [where x = "(n, c)"])
    with Series Inr show ?thesis by (auto simp: convert_fields_def)
  qed
qed

lemma convert_fields_keeps:
  assumes "convert_fields f panda names = Inr panda'" and "n \<notin> set names" and "holds panda n c"
  shows "holds panda' n c"
proof (cases panda)
  case (DataFrame fr)
  with assms(1) obtain sel conv where
    sel: "getitems (columns fr) names = Inr sel" and conv: "apply_columns f sel = Inr conv"
    and p: "panda' = DataFrame (fr\<lparr>columns := setitems (columns fr) conv\<rparr>)"
    by (auto simp: convert_fields_def split: sum.splits)
  have "map fst conv = names"
    using apply_columns_labels [OF conv] getitems_labels [OF sel] by simp
  then have "n \<notin> fst ` set conv"
    using assms(2) by (metis set_map)
  then show ?thesis
    using assms(3) DataFrame p by (simp add: holds_def map_of_setitems_other)
next
  case (Series sr)
  with assms(1) obtain sel conv where
    sel: "getitems sr names = Inr sel" and conv: "apply_cells f sel = Inr conv"
    and p: "panda' = Series (setitems sr conv)"
    by (auto simp: convert_fields_def split: sum.splits)
  have "map fst conv = names"
    using apply_cells_labels [OF conv] getitems_labels [OF sel] by simp
  then have "n \<notin> fst ` set conv"
    using assms(2) by (metis set_map)
  then show ?thesis
    using assms(3) Series p by (simp add: holds_def map_of_setitems_other)
qed

lemma process_panda_fails:
  assumes "holds panda n c"
    and "(\<exists>ns. numeric = Some ns \<and> n \<in> set ns \<and> to_numeric P c = Inl e)
       \<or> (\<exists>ts. time = Some ts \<and> n \<in> set ts \<and> (\<forall>ns. numeric = Some ns \<longrightarrow> n \<notin> set ns)
              \<and> to_datetime P c = Inl e)"
  shows "\<exists>e'. process_panda P panda numeric time = Inl e'"
  using assms(2)
proof (elim disjE exE conjE)
  fix ns
  assume "numeric = Some ns" "n \<in> set ns" "to_numeric P c = Inl e"
  then show ?thesis
    using convert_fields_fails [OF assms(1), of ns "to_numeric P" e]
    by (auto simp: process_panda_def)
next
  fix ts
  assume t: "time = Some ts" "n \<in> set ts" "to_datetime P c = Inl e"
    and nn: "\<forall>ns. numeric = Some ns \<longrightarrow> n \<notin> set ns"
  show ?thesis
  proof (cases "case numeric of None \<Rightarrow> Inr panda | Some ns \<Rightarrow> convert_fields (to_numeric P) panda ns")
    case (Inl e')
    then show ?thesis by (simp add: process_panda_def)
  next
    case (Inr panda')
    have "holds panda' n c"
    proof (cases numeric)
      case None
      with Inr assms(1) show ?thesis by simp
    next
      case (Some ns)
      with Inr nn show ?thesis
        using convert_fields_keeps [of "to_numeric P" panda ns panda' n c] assms(1) by simp
    qed
    then show ?thesis
      using convert_fields_fails [of panda' n c ts "to_datetime P" e] t Inr
      by (auto simp: process_panda_def)
  qed
qed

lemma those_dict_items: "those (map (dict_items \<circ> JDict) records) = Some records"
  by (induction records) (simp_all add: dict_items_def)

lemma pd_DataFrame_records: "pd_DataFrame P (JList (map JDict records)) = Inr (frame_of_records records)"
  by (simp add: pd_DataFrame_def those_dict_items)

lemma map_of_graph: "k \<in> set ks \<Longrightarrow> map_of (map (\<lambda>k. (k, g k)) ks) k = Some (g k)"
  by (induction ks) auto

lemma frame_of_records_holds:
  assumes "r \<in> set records" and "map_of r f = Some v"
  shows "holds (DataFrame (frame_of_records records)) f (Obj v)"
proof -
  have "f \<in> fst ` set r"
    using assms(2) by (metis map_of_eq_None_iff option.distinct(1))
  then have "f \<in> set (ordered_keys records)"
    using assms(1) by (auto simp: ordered_keys_def)
  then have "map_of (columns (frame_of_records records)) f
               = Some (map (\<lambda>r. case map_of r f of None \<Rightarrow> NaN | Some v \<Rightarrow> Obj v) records)"
    unfolding frame_of_records_def by (simp add: map_of_graph)
  moreover have "Obj v \<in> set (map (\<lambda>r. case map_of r f of None \<Rightarrow> NaN | Some v \<Rightarrow> Obj v) records)"
    using assms by force
  ultimately show ?thesis by (simp add: holds_def)
qed

lemma pd_Series_holds:
  "map_of kvs f = Some v \<Longrightarrow> holds (Series (map (\<lambda>(k, v). (k, Obj v)) kvs)) f (Obj v)"
  by (induction kvs) (auto simp: holds_def)

text \<open>
  C7. When a record of the input holds, under a field declared numeric, a value that
  \<open>pd.to_numeric\<close> cannot parse, \<open>make_df\<close> and \<open>make_series\<close> raise: no table or series
  is returned, so no null, zero or default stands in for the value. The same holds for
  \<open>pd.to_datetime\<close> and a field declared temporal (and not also numeric, since the numeric
  conversion runs first and replaces the value).
\<close>

theorem unparsable_field_raises:
  assumes "(\<exists>ns. numeric = Some ns \<and> f \<in> set ns \<and> to_numeric P (Obj v) = Inl e)
         \<or> (\<exists>ts. time = Some ts \<and> f \<in> set ts \<and> (\<forall>ns. numeric = Some ns \<longrightarrow> f \<notin> set ns)
                \<and> to_datetime P (Obj v) = Inl e)"
  shows "(s ! d = JList (map JDict records) \<and> r \<in> set records \<and> map_of r f = Some v
            \<longrightarrow> (\<exists>e'. make_df P d numeric time s = (Inl e', s)))
       \<and> (s ! d = JDict kvs \<and> ascii ''statusCode'' \<notin> fst ` set kvs \<and> map_of kvs f = Some v
            \<longrightarrow> (\<exists>e'. make_series P d numeric time s = (Inl e', s)))"
proof (intro conjI impI; elim conjE)
  assume d: "s ! d = JList (map JDict records)" and r: "r \<in> set records" "map_of r f = Some v"
  obtain e' where "process_panda P (DataFrame (frame_of_records records)) numeric time = Inl e'"
    using process_panda_fails [OF frame_of_records_holds [OF r] assms] by blast
  then show "\<exists>e'. make_df P d numeric time s = (Inl e', s)"
    using d by (simp add: make_df_def is_error_message_def pd_DataFrame_records)
next
  assume d: "s ! d = JDict kvs" and ne: "ascii ''statusCode'' \<notin> fst ` set kvs"
    and v: "map_of kvs f = Some v"
  obtain e' where "process_panda P (Series (map (\<lambda>(k, v). (k, Obj v)) kvs)) numeric time = Inl e'"
    using process_panda_fails [OF pd_Series_holds [OF v] assms] by blast
  then show "\<exists>e'. make_series P d numeric time s = (Inl e', s)"
    using d ne by (simp add: make_series_def is_error_message_def pd_Series_def)
qed

theorem unparsable_field_raises_witness:
  "to_numeric example_pandas (Obj (JStr (ascii ''abc''))) = Inl (ValueError (ascii ''Unable to parse string''))
   \<and> (\<exists>e'. make_df example_pandas 0 (Some [ascii ''price'']) None
               [JList [JDict [(ascii ''price'', JStr (ascii ''abc''))]]]
             = (Inl e', [JList [JDict [(ascii ''price'', JStr (ascii ''abc''))]]]))
   \<and> to_datetime example_pandas (Obj (JStr (ascii ''yesterday'')))
       = Inl (ValueError (ascii ''Unknown datetime string format''))
   \<and> (\<exists>e'. make_series example_pandas 0 (Some [ascii ''price'']) (Some [ascii ''timestamp''])
               [JDict [(ascii ''price'', JStr (ascii ''0.2677'')),
                       (ascii ''timestamp'', JStr (ascii ''yesterday''))]]
             = (Inl e', [JDict [(ascii ''price'', JStr (ascii ''0.2677'')),
                                (ascii ''timestamp'', JStr (ascii ''yesterday''))]]))"
proof -
  let ?row = "[(ascii ''price'', JStr (ascii ''abc''))]"
  let ?rec = "[(ascii ''price'', JStr (ascii ''0.2677'')), (ascii ''timestamp'', JStr (ascii ''yesterday''))]"
  have n: "to_numeric example_pandas (Obj (JStr (ascii ''abc'')))
             = Inl (ValueError (ascii ''Unable to parse string''))"
    by (simp add: example_pandas_def example_to_numeric_def example_float_def ascii_def)
  have t: "to_datetime example_pandas (Obj (JStr (ascii ''yesterday'')))
             = Inl (ValueError (ascii ''Unknown datetime string format''))"
    by (simp add: example_pandas_def example_to_datetime_def ascii_def)
  have h1: "(\<exists>ns. Some [ascii ''price''] = Some ns \<and> ascii ''price'' \<in> set ns
                 \<and> to_numeric example_pandas (Obj (JStr (ascii ''abc'')))
                     = Inl (ValueError (ascii ''Unable to parse string'')))
          \<or> (\<exists>ts. None = Some ts \<and> ascii ''price'' \<in> set ts
                 \<and> (\<forall>ns. Some [ascii ''price''] = Some ns \<longrightarrow> ascii ''price'' \<notin> set ns)
                 \<and> to_datetime example_pandas (Obj (JStr (ascii ''abc'')))
                     = Inl (ValueError (ascii ''Unable to parse string'')))"
    using n by simp
  have h2: "(\<exists>ns. Some [ascii ''price''] = Some ns \<and> ascii ''timestamp'' \<in> set ns
                 \<and> to_numeric example_pandas (Obj (JStr (ascii ''yesterday'')))
                     = Inl (ValueError (ascii ''Unknown datetime string format'')))
          \<or> (\<exists>ts. Some [ascii ''timestamp''] = Some ts \<and> ascii ''timestamp'' \<in> set ts
                 \<and> (\<forall>ns. Some [ascii ''price''] = Some ns \<longrightarrow> ascii ''timestamp'' \<notin> set ns)
                 \<and> to_datetime example_pandas (Obj (JStr (ascii ''yesterday'')))
                     = Inl (ValueError (ascii ''Unknown datetime string format'')))"
    using t by (simp add: ascii_def)
  have a: "\<exists>e'. make_df example_pandas 0 (Some [ascii ''price'']) None [JList [JDict ?row]]
                  = (Inl e', [JList [JDict ?row]])"
    using unparsable_field_raises [OF h1, of "[JList [JDict ?row]]" 0 "[?row]" ?row "[]"]
    by simp
  have b: "\<exists>e'. make_series example_pandas 0 (Some [ascii ''price'']) (Some [ascii ''timestamp''])
                   [JDict ?rec] = (Inl e', [JDict ?rec])"
    using unparsable_field_raises [OF h2, of "[JDict ?rec]" 0 "[]" "[]" ?rec]
    by (simp add: ascii_def)
  from n a t b show ?thesis by (intro conjI)
qed

section \<open>Properties of the order book conversion\<close>

lemma unpack_pair_list: "unpack_pair (JList [p, q]) = Inr (p, q)"
  by (simp add: unpack_pair_def py_iter_def)

lemma float_pairs_converted:
  "list_all2 (converted_pair pyfloat) vs ws \<Longrightarrow> float_pairs pyfloat vs = Inr ws"
  by (induction rule: list_all2_induct) (auto simp: converted_pair_def unpack_pair_list)

lemma contains_dict: "contains (JDict kvs) k = Inr (k \<in> fst ` set kvs)"
  by (simp add: contains_def)

lemma process_sides_absent:
  assumes "s ! a = JDict kvs" and "map_of kvs side = None"
  shows "process_sides pyfloat (side # sides) a s = process_sides pyfloat sides a s"
  using assms by (simp add: contains_dict map_of_eq_None_iff)

lemma process_sides_present:
  assumes "s ! a = JDict kvs" and "map_of kvs side = Some (JList vs)"
    and "list_all2 (converted_pair pyfloat) vs ws"
  shows "process_sides pyfloat (side # sides) a s
           = process_sides pyfloat sides a (s[a := JDict (AList.update side (JList ws) kvs)])"
proof -
  have "side \<in> fst ` set kvs"
    using assms(2) by (metis map_of_eq_None_iff option.distinct(1))
  then show ?thesis
    using assms by (simp add: contains_dict py_iter_def float_pairs_converted)
qed

lemma process_side:
  assumes "a < length s" and "s ! a = JDict kvs"
    and "rel_option (converted_side pyfloat) (map_of kvs side) out"
  shows "\<exists>kvs'. process_sides pyfloat (side # sides) a s
                  = process_sides pyfloat sides a (s[a := JDict kvs'])
               \<and> map_of kvs' side = out
               \<and> (\<forall>k. k \<noteq> side \<longrightarrow> map_of kvs' k = map_of kvs k)"
proof (cases "map_of kvs side")
  case None
  then have "out = None" using assms(3) by simp
  moreover have "s[a := JDict kvs] = s"
    using assms(2) by (metis list_update_id)
  ultimately show ?thesis
    using process_sides_absent [OF assms(2) None, of pyfloat sides] None by (intro exI [of _ kvs]) simp
next
  case (Some v)
  then obtain w where w: "out = Some w" "converted_side pyfloat v w"
    using assms(3) by (auto simp: option_rel_Some1)
  then obtain vs ws where vs: "v = JList vs" "w = JList ws" "list_all2 (converted_pair pyfloat) vs ws"
    by (auto simp: converted_side_def)
  show ?thesis
    using process_sides_present [OF assms(2) Some [unfolded vs(1)] vs(3), of sides] w(1) vs(2)
    by (intro exI [of _ "AList.update side (JList ws) kvs"]) (simp add: update_conv')
qed

text \<open>
  C6. For an order book whose \<open>bids\<close> and \<open>asks\<close>, each when present, are lists of
  \<open>[price, amount]\<close> pairs of strings that \<open>float\<close> parses, \<open>process_orderbook\<close> returns
  the dict it was given, in which \<open>bids\<close> and \<open>asks\<close> are now the lists of the pairs of
  parsed floating-point numbers and every other key, \<open>marketId\<close> and \<open>snapshotId\<close> among
  them, has its original value; a side that is absent stays absent.
\<close>

theorem process_orderbook_converts:
  assumes "orderbook < length s" and "s ! orderbook = JDict kvs"
    and "rel_option (converted_side pyfloat) (map_of kvs (ascii ''bids'')) bids"
    and "rel_option (converted_side pyfloat) (map_of kvs (ascii ''asks'')) asks"
  shows "\<exists>kvs'. process_orderbook pyfloat orderbook s = (Inr orderbook, s[orderbook := JDict kvs'])
               \<and> map_of kvs' (ascii ''bids'') = bids
               \<and> map_of kvs' (ascii ''asks'') = asks
               \<and> (\<forall>k. k \<noteq> ascii ''bids'' \<and> k \<noteq> ascii ''asks'' \<longrightarrow> map_of kvs' k = map_of kvs k)"
proof -
  have ne: "ascii ''asks'' \<noteq> ascii ''bids''"
    by (simp add: ascii_def)
  obtain kvs1 where
    step1: "process_sides pyfloat [ascii ''bids'', ascii ''asks''] orderbook s
              = process_sides pyfloat [ascii ''asks''] orderbook (s[orderbook := JDict kvs1])"
    and bids1: "map_of kvs1 (ascii ''bids'') = bids"
    and rest1: "\<forall>k. k \<noteq> ascii ''bids'' \<longrightarrow> map_of kvs1 k = map_of kvs k"
    using process_side [OF assms(1,2,3), of "[ascii ''asks'']"] by blast
  let ?s1 = "s[orderbook := JDict kvs1]"
  have len1: "orderbook < length ?s1" and at1: "?s1 ! orderbook = JDict kvs1"
    using assms(1) by simp_all
  have asks1: "rel_option (converted_side pyfloat) (map_of kvs1 (ascii ''asks'')) asks"
    using assms(4) rest1 ne by simp
  obtain kvs2 where
    step2: "process_sides pyfloat [ascii ''asks''] orderbook ?s1
              = process_sides pyfloat [] orderbook (?s1[orderbook := JDict kvs2])"
    and asks2: "map_of kvs2 (ascii ''asks'') = asks"
    and rest2: "\<forall>k. k \<noteq> ascii ''asks'' \<longrightarrow> map_of kvs2 k = map_of kvs1 k"
    using process_side [OF len1 at1 asks1, of "[]"] by blast
  have "process_orderbook pyfloat orderbook s = (Inr orderbook, s[orderbook := JDict kvs2])"
    unfolding process_orderbook_def step1 step2 by simp
  moreover have "map_of kvs2 (ascii ''bids'') = bids"
    using rest2 bids1 ne by simp
  moreover have "\<forall>k. k \<noteq> ascii ''bids'' \<and> k \<noteq> ascii ''asks'' \<longrightarrow> map_of kvs2 k = map_of kvs k"
    using rest1 rest2 by simp
  ultimately show ?thesis
    using asks2 by blast
qed

theorem process_orderbook_converts_witness:
  "(0::nat) < length [JDict [(ascii ''marketId'', JStr (ascii ''BAT-AUD'')), (ascii ''snapshotId'', JInt 1),
                             (ascii ''asks'', JList [JList [JStr (ascii ''0.2677''), JStr (ascii ''5665.85'')]]),
                             (ascii ''bids'', JList [JList [JStr (ascii ''0.2612''), JStr (ascii ''17847.84'')]])]]
   \<and> (\<exists>kvs'. process_orderbook example_float 0
                 [JDict [(ascii ''marketId'', JStr (ascii ''BAT-AUD'')), (ascii ''snapshotId'', JInt 1),
                         (ascii ''asks'', JList [JList [JStr (ascii ''0.2677''), JStr (ascii ''5665.85'')]]),
                         (ascii ''bids'', JList [JList [JStr (ascii ''0.2612''), JStr (ascii ''17847.84'')]])]]
               = (Inr 0, [JDict kvs'])
             \<and> map_of kvs' (ascii ''bids'')
                 = Some (JList [JList [JFloat 0x3FD0B780346DC5D6, JFloat 0x40D16DF5C28F5C29]])
             \<and> map_of kvs' (ascii ''asks'')
                 = Some (JList [JList [JFloat 0x3FD121FF2E48E8A7, JFloat 0x40B621D99999999A]])
             \<and> map_of kvs' (ascii ''marketId'') = Some (JStr (ascii ''BAT-AUD''))
             \<and> map_of kvs' (ascii ''snapshotId'') = Some (JInt 1))"
proof -
  let ?kvs = "[(ascii ''marketId'', JStr (ascii ''BAT-AUD'')), (ascii ''snapshotId'', JInt 1),
               (ascii ''asks'', JList [JList [JStr (ascii ''0.2677''), JStr (ascii ''5665.85'')]]),
               (ascii ''bids'', JList [JList [JStr (ascii ''0.2612''), JStr (ascii ''17847.84'')]])]"
  let ?bids = "Some (JList [JList [JFloat 0x3FD0B780346DC5D6, JFloat 0x40D16DF5C28F5C29]])"
  let ?asks = "Some (JList [JList [JFloat 0x3FD121FF2E48E8A7, JFloat 0x40B621D99999999A]])"
  have a: "(0::nat) < length [JDict ?kvs]" by simp
  have b: "[JDict ?kvs] ! 0 = JDict ?kvs" by simp
  have c: "rel_option (converted_side example_float) (map_of ?kvs (ascii ''bids'')) ?bids"
    by (simp add: converted_side_def converted_pair_def example_float_def ascii_def)
  have d: "rel_option (converted_side example_float) (map_of ?kvs (ascii ''asks'')) ?asks"
    by (simp add: converted_side_def converted_pair_def example_float_def ascii_def)
  obtain kvs' where
    r: "process_orderbook example_float 0 [JDict ?kvs] = (Inr 0, [JDict ?kvs][0 := JDict kvs'])"
    and bids: "map_of kvs' (ascii ''bids'') = ?bids" and asks: "map_of kvs' (ascii ''asks'') = ?asks"
    and rest: "\<forall>k. k \<noteq> ascii ''bids'' \<and> k \<noteq> ascii ''asks'' \<longrightarrow> map_of kvs' k = map_of ?kvs k"
    using process_orderbook_converts [OF a b c d] by blast
  have "map_of kvs' (ascii ''marketId'') = Some (JStr (ascii ''BAT-AUD''))"
    and "map_of kvs' (ascii ''snapshotId'') = Some (JInt 1)"
    using rest by (simp_all add: ascii_def)
  with r bids asks a show ?thesis
    by (intro conjI exI [of _ kvs']) simp_all
qed

lemma process_sides_frame:
  "process_sides pyfloat sides a s = (r, s') \<Longrightarrow>
     length s' = length s
   \<and> (\<forall>b. b \<noteq> a \<longrightarrow> s' ! b = s ! b)
   \<and> (\<forall>kvs. a < length s \<and> s ! a = JDict kvs \<longrightarrow>
         (\<exists>kvs'. s' ! a = JDict kvs' \<and> (\<forall>k. k \<notin> set sides \<longrightarrow> map_of kvs' k = map_of kvs k)))"
proof (induction sides arbitrary: s)
  case Nil
  then show ?case by simp
next
  case (Cons side sides)
  show ?case
  proof (cases "\<exists>kvs v xs ys. s ! a = JDict kvs \<and> side \<in> fst ` set kvs \<and> map_of kvs side = Some v
                  \<and> py_iter v = Inr xs \<and> float_pairs pyfloat xs = Inr ys")
    case True
    then obtain kvs v xs ys where k: "s ! a = JDict kvs" "side \<in> fst ` set kvs"
      "map_of kvs side = Some v" "py_iter v = Inr xs" "float_pairs pyfloat xs = Inr ys"
      by blast
    let ?s1 = "s[a := JDict (AList.update side (JList ys) kvs)]"
    have "process_sides pyfloat sides a ?s1 = (r, s')"
      using Cons.prems k by (simp add: contains_dict)
    from Cons.IH [OF this] have
      len: "length s' = length s" and other: "\<forall>b. b \<noteq> a \<longrightarrow> s' ! b = s ! b"
      and same: "a < length s \<longrightarrow>
         (\<exists>kvs'. s' ! a = JDict kvs'
            \<and> (\<forall>k. k \<notin> set sides \<longrightarrow> map_of kvs' k = map_of (AList.update side (JList ys) kvs) k))"
      by simp_all
    show ?thesis
      using len other same k(1) by (auto simp: update_conv')
  next
    case False
    show ?thesis
    proof (cases "contains (s ! a) side = Inr False")
      case True
      then have "process_sides pyfloat sides a s = (r, s')"
        using Cons.prems by simp
      from Cons.IH [OF this] show ?thesis by auto
    next
      case nf: False
      have "s' = s"
        using Cons.prems False nf
        by (auto simp: contains_dict split: sum.splits bool.splits json.splits option.splits)
      then show ?thesis by simp
    qed
  qed
qed

text \<open>
  C10 as stated fails: \<open>process_orderbook\<close> assigns into the dict it is given and returns
  that dict. After the call the argument holds the converted lists.
\<close>

theorem process_orderbook_in_place_counterexample:
  "process_orderbook example_float 0
     [JDict [(ascii ''marketId'', JStr (ascii ''BAT-AUD'')), (ascii ''snapshotId'', JInt 1),
             (ascii ''asks'', JList [JList [JStr (ascii ''0.2677''), JStr (ascii ''5665.85'')]]),
             (ascii ''bids'', JList [JList [JStr (ascii ''0.2612''), JStr (ascii ''17847.84'')]])]]
   = (Inr 0,
      [JDict [(ascii ''marketId'', JStr (ascii ''BAT-AUD'')), (ascii ''snapshotId'', JInt 1),
              (ascii ''asks'', JList [JList [JFloat 0x3FD121FF2E48E8A7, JFloat 0x40B621D99999999A]]),
              (ascii ''bids'', JList [JList [JFloat 0x3FD0B780346DC5D6, JFloat 0x40D16DF5C28F5C29]])]])
   \<and> [JDict [(ascii ''marketId'', JStr (ascii ''BAT-AUD'')), (ascii ''snapshotId'', JInt 1),
              (ascii ''asks'', JList [JList [JFloat 0x3FD121FF2E48E8A7, JFloat 0x40B621D99999999A]]),
              (ascii ''bids'', JList [JList [JFloat 0x3FD0B780346DC5D6, JFloat 0x40D16DF5C28F5C29]])]]
     \<noteq> [JDict [(ascii ''marketId'', JStr (ascii ''BAT-AUD'')), (ascii ''snapshotId'', JInt 1),
                (ascii ''asks'', JList [JList [JStr (ascii ''0.2677''), JStr (ascii ''5665.85'')]]),
                (ascii ''bids'', JList [JList [JStr (ascii ''0.2612''), JStr (ascii ''17847.84'')]])]]"
  by (simp add: process_orderbook_def contains_def py_iter_def unpack_pair_def example_float_def ascii_def)

text \<open>
  C10, amended. \<open>make_df\<close> and \<open>make_series\<close> change no object: they return the object
  they were given when it is an error message, and a newly built table or series
  otherwise. \<open>process_orderbook\<close> works in place: it returns the object it was given, changes
  no other object, and in a dict assigns only to \<open>bids\<close> and \<open>asks\<close>.
\<close>

theorem normalization_effects:
  "snd (make_df P d numeric time s) = s
   \<and> snd (make_series P d numeric time s) = s
   \<and> (\<forall>v. fst (make_df P d numeric time s) = Inr v \<longrightarrow> (v = Ref d) = is_error_message (s ! d))
   \<and> (\<forall>v. fst (make_series P d numeric time s) = Inr v \<longrightarrow> (v = Ref d) = is_error_message (s ! d))
   \<and> (\<forall>r. fst (process_orderbook pyfloat d s) = Inr r \<longrightarrow> r = d)
   \<and> length (snd (process_orderbook pyfloat d s)) = length s
   \<and> (\<forall>b. b \<noteq> d \<longrightarrow> snd (process_orderbook pyfloat d s) ! b = s ! b)
   \<and> (\<forall>kvs. d < length s \<and> s ! d = JDict kvs \<longrightarrow>
         (\<exists>kvs'. snd (process_orderbook pyfloat d s) ! d = JDict kvs'
            \<and> (\<forall>k. k \<noteq> ascii ''bids'' \<and> k \<noteq> ascii ''asks'' \<longrightarrow> map_of kvs' k = map_of kvs k)))"
proof -
  obtain r s' where p: "process_sides pyfloat [ascii ''bids'', ascii ''asks''] d s = (r, s')"
    by (cases "process_sides pyfloat [ascii ''bids'', ascii ''asks''] d s")
  have o: "snd (process_orderbook pyfloat d s) = s'"
    and f: "fst (process_orderbook pyfloat d s) = (case r of Inl e \<Rightarrow> Inl e | Inr _ \<Rightarrow> Inr d)"
    unfolding process_orderbook_def p by (simp_all split: sum.splits)
  have df: "snd (make_df P d numeric time s) = s"
    "\<forall>v. fst (make_df P d numeric time s) = Inr v \<longrightarrow> (v = Ref d) = is_error_message (s ! d)"
    by (auto simp: make_df_def split: sum.splits)
  have sr: "snd (make_series P d numeric time s) = s"
    "\<forall>v. fst (make_series P d numeric time s) = Inr v \<longrightarrow> (v = Ref d) = is_error_message (s ! d)"
    by (auto simp: make_series_def split: sum.splits)
  have ret: "\<forall>r'. fst (process_orderbook pyfloat d s) = Inr r' \<longrightarrow> r' = d"
    unfolding f by (auto split: sum.splits)
  show ?thesis
    using process_sides_frame [OF p] df sr ret unfolding o
    by (intro conjI) simp_all
qed

theorem normalization_effects_witness:
  "fst (make_df example_pandas 1 None None
          [JDict [(ascii ''marketId'', JStr (ascii ''BAT-AUD'')),
                  (ascii ''bids'', JList [JList [JStr (ascii ''0.2612''), JStr (ascii ''17847.84'')]])],
           JList []])
     = Inr (Panda (DataFrame \<lparr>columns = [], nrows = 0\<rparr>))
   \<and> \<not> is_error_message
         ([JDict [(ascii ''marketId'', JStr (ascii ''BAT-AUD'')),
                  (ascii ''bids'', JList [JList [JStr (ascii ''0.2612''), JStr (ascii ''17847.84'')]])],
           JList []] ! 1)
   \<and> fst (make_series example_pandas 0 None None
             [JDict [(ascii ''marketId'', JStr (ascii ''BAT-AUD'')),
                     (ascii ''bids'', JList [JList [JStr (ascii ''0.2612''), JStr (ascii ''17847.84'')]])],
              JList []])
       = Inr (Panda (Series
           [(ascii ''marketId'', Obj (JStr (ascii ''BAT-AUD''))),
            (ascii ''bids'', Obj (JList [JList [JStr (ascii ''0.2612''), JStr (ascii ''17847.84'')]]))]))
   \<and> \<not> is_error_message
         ([JDict [(ascii ''marketId'', JStr (ascii ''BAT-AUD'')),
                  (ascii ''bids'', JList [JList [JStr (ascii ''0.2612''), JStr (ascii ''17847.84'')]])],
           JList []] ! 0)
   \<and> fst (process_orderbook example_float 0
             [JDict [(ascii ''marketId'', JStr (ascii ''BAT-AUD'')),
                     (ascii ''bids'', JList [JList [JStr (ascii ''0.2612''), JStr (ascii ''17847.84'')]])],
              JList []])
       = Inr 0
   \<and> snd (process_orderbook example_float 0
             [JDict [(ascii ''marketId'', JStr (ascii ''BAT-AUD'')),
                     (ascii ''bids'', JList [JList [JStr (ascii ''0.2612''), JStr (ascii ''17847.84'')]])],
              JList []]) ! 1
       = JList []
   \<and> (\<exists>kvs'. snd (process_orderbook example_float 0
                     [JDict [(ascii ''marketId'', JStr (ascii ''BAT-AUD'')),
                             (ascii ''bids'', JList [JList [JStr (ascii ''0.2612''), JStr (ascii ''17847.84'')]])],
                      JList []]) ! 0
               = JDict kvs'
             \<and> map_of kvs' (ascii ''marketId'') = Some (JStr (ascii ''BAT-AUD'')))"
proof -
  let ?kvs = "[(ascii ''marketId'', JStr (ascii ''BAT-AUD'')),
               (ascii ''bids'', JList [JList [JStr (ascii ''0.2612''), JStr (ascii ''17847.84'')]])]"
  let ?s = "[JDict ?kvs, JList []]"
  note df = normalization_effects [of example_pandas 1 None None ?s example_float]
  note ob = normalization_effects [of example_pandas 0 None None ?s example_float]
  have r1: "fst (make_df example_pandas 1 None None ?s) = Inr (Panda (DataFrame \<lparr>columns = [], nrows = 0\<rparr>))"
    by (simp add: make_df_def is_error_message_def pd_DataFrame_empty process_panda_def)
  have "(Panda (DataFrame \<lparr>columns = [], nrows = 0\<rparr>) = Ref 1) = is_error_message (?s ! 1)"
    using df r1 by blast
  then have n1: "\<not> is_error_message (?s ! 1)"
    by simp
  have r2: "fst (make_series example_pandas 0 None None ?s)
              = Inr (Panda (Series
                  [(ascii ''marketId'', Obj (JStr (ascii ''BAT-AUD''))),
                   (ascii ''bids'', Obj (JList [JList [JStr (ascii ''0.2612''), JStr (ascii ''17847.84'')]]))]))"
    by (simp add: make_series_def is_error_message_def pd_Series_def process_panda_def ascii_def)
  have "(Panda (Series
           [(ascii ''marketId'', Obj (JStr (ascii ''BAT-AUD''))),
            (ascii ''bids'', Obj (JList [JList [JStr (ascii ''0.2612''), JStr (ascii ''17847.84'')]]))])
          = Ref 0) = is_error_message (?s ! 0)"
    using ob r2 by blast
  then have n2: "\<not> is_error_message (?s ! 0)"
    by simp
  have r0: "fst (process_orderbook example_float 0 ?s) = Inr 0"
    by (simp add: process_orderbook_def contains_def py_iter_def unpack_pair_def example_float_def
        ascii_def)
  have o1: "snd (process_orderbook example_float 0 ?s) ! 1 = JList []"
    using ob by simp
  have "(0::nat) < length ?s \<and> ?s ! 0 = JDict ?kvs"
    by simp
  then obtain kvs' where k: "snd (process_orderbook example_float 0 ?s) ! 0 = JDict kvs'"
    "\<forall>k. k \<noteq> ascii ''bids'' \<and> k \<noteq> ascii ''asks'' \<longrightarrow> map_of kvs' k = map_of ?kvs k"
    using ob by blast
  have "map_of kvs' (ascii ''marketId'') = Some (JStr (ascii ''BAT-AUD''))"
    using k(2) by (simp add: ascii_def)
  with r1 n1 r2 n2 r0 o1 k(1) show ?thesis
    by (intro conjI exI [of _ kvs']) simp_all
qed

section \<open>Properties of the client\<close>

lemma makeHttpCall_requests:
  assumes "r \<in> set (requests (makeHttpCall L self method path query_params body))"
  shows "buildHeaders (clock_ms L) method (apiKey self) (privateKey self) path
           (if body \<noteq> JNull then Some (json_dumps L body) else None) = Inr (req_headers r)
       \<and> req_url r = base_url @ path
           @ (case query_params of JDict kvs \<Rightarrow> ascii ''?'' @ urlencode L kvs | _ \<Rightarrow> [])
       \<and> req_method r = method"
  using assms unfolding makeHttpCall_def Let_def
  by (auto split: sum.splits option.splits if_splits json.splits)

lemma tickers_requests:
  "requests (fst (tickers L P self market_ids s))
     = (if market_ids = [] then []
        else requests (makeHttpCall L self (ascii ''GET'') (tickers_path market_ids) JNull JNull))"
  unfolding tickers_def Let_def handle_error_def
  by (auto split: sum.splits prod.splits)

lemma makeHttpCall_get_requests:
  assumes "method \<noteq> ascii ''POST''" and "method \<noteq> ascii ''PUT''"
    and "buildHeaders (clock_ms L) method (apiKey self) (privateKey self) path
           (if body \<noteq> JNull then Some (json_dumps L body) else None) = Inr headers"
  shows "requests (makeHttpCall L self method path query_params body)
           = [\<lparr>req_url = base_url @ path
                  @ (case query_params of JDict kvs \<Rightarrow> ascii ''?'' @ urlencode L kvs | _ \<Rightarrow> []),
               req_data = map_option StrBody (if body \<noteq> JNull then Some (json_dumps L body) else None),
               req_headers = headers, req_method = method\<rparr>]"
  using assms unfolding makeHttpCall_def Let_def
  by (auto split: json.splits)

lemma example_tickers_requests:
  "requests (fst (tickers example_library example_pandas example_client [ascii ''BTC-AUD''] []))
     = [\<lparr>req_url = ascii ''https://api.btcmarkets.net/v3/markets/tickers?marketId=BTC-AUD'',
         req_data = None,
         req_headers =
           [(ascii ''Accept'', ascii ''application/json''),
            (ascii ''Accept-Charset'', ascii ''UTF-8''),
            (ascii ''Content-Type'', ascii ''application/json''),
            (ascii ''BM-AUTH-APIKEY'', ascii ''key''),
            (ascii ''BM-AUTH-TIMESTAMP'', ascii ''1700000000123''),
            (ascii ''BM-AUTH-SIGNATURE'',
             map unat (b64encode (hmac_sha512 [1, 2, 3]
               (map of_char ''GET/v3/markets/tickers?marketId=BTC-AUD1700000000123''))))],
         req_method = ascii ''GET''\<rparr>]"
proof -
  have p: "tickers_path [ascii ''BTC-AUD''] = ascii ''/v3/markets/tickers?marketId=BTC-AUD''"
    by (simp add: tickers_path_def ascii_def)
  have t: "str_int 1700000000123 = ascii ''1700000000123''"
    by (simp add: ascii_def str_int_def digits.simps)
  have e: "encode_utf8 (canonical_message (ascii ''GET'') (ascii ''/v3/markets/tickers?marketId=BTC-AUD'')
                          (ascii ''1700000000123'') None)
             = Inr (map of_char ''GET/v3/markets/tickers?marketId=BTC-AUD1700000000123'')"
    by (simp add: canonical_message_def ascii_def utf8_char_def)
  have h: "buildHeaders (clock_ms example_library) (ascii ''GET'') (apiKey example_client)
             (privateKey example_client) (ascii ''/v3/markets/tickers?marketId=BTC-AUD'')
             (if JNull \<noteq> JNull then Some (json_dumps example_library JNull) else None)
           = Inr [(ascii ''Accept'', ascii ''application/json''),
                  (ascii ''Accept-Charset'', ascii ''UTF-8''),
                  (ascii ''Content-Type'', ascii ''application/json''),
                  (ascii ''BM-AUTH-APIKEY'', ascii ''key''),
                  (ascii ''BM-AUTH-TIMESTAMP'', ascii ''1700000000123''),
                  (ascii ''BM-AUTH-SIGNATURE'',
                   map unat (b64encode (hmac_sha512 [1, 2, 3]
                     (map of_char ''GET/v3/markets/tickers?marketId=BTC-AUD1700000000123''))))]"
    by (simp add: buildHeaders_canonical example_library_def example_client_def t
        signMessage_encodable [OF e])
  have g: "ascii ''GET'' \<noteq> ascii ''POST''" "ascii ''GET'' \<noteq> ascii ''PUT''"
    by (simp_all add: ascii_def)
  have u: "base_url @ ascii ''/v3/markets/tickers?marketId=BTC-AUD''
             = ascii ''https://api.btcmarkets.net/v3/markets/tickers?marketId=BTC-AUD''"
    by (simp add: base_url_def ascii_def)
  show ?thesis
    unfolding tickers_requests p makeHttpCall_get_requests [OF g h]
    by (simp add: u)
qed


lemma example_market_trades_requests:
  "requests (market_trades_call example_library example_client (ascii ''BTC-AUD'') JNull JNull (JInt 5))
     = [\<lparr>req_url = ascii ''https://api.btcmarkets.net/v3/markets/BTC-AUD/trades?limit=5'',
         req_data = None,
         req_headers =
           [(ascii ''Accept'', ascii ''application/json''),
            (ascii ''Accept-Charset'', ascii ''UTF-8''),
            (ascii ''Content-Type'', ascii ''application/json''),
            (ascii ''BM-AUTH-APIKEY'', ascii ''key''),
            (ascii ''BM-AUTH-TIMESTAMP'', ascii ''1700000000123''),
            (ascii ''BM-AUTH-SIGNATURE'',
             map unat (b64encode (hmac_sha512 [1, 2, 3]
               (map of_char ''GET/v3/markets/BTC-AUD/trades1700000000123''))))],
         req_method = ascii ''GET''\<rparr>]"
proof -
  have p: "ascii ''/v3/markets/'' @ ascii ''BTC-AUD'' @ ascii ''/trades'' = ascii ''/v3/markets/BTC-AUD/trades''"
    by (simp add: ascii_def)
  have q: "filter (\<lambda>(k, v). v \<noteq> JNull)
             [(ascii ''before'', JNull), (ascii ''after'', JNull), (ascii ''limit'', JInt 5)]
           = [(ascii ''limit'', JInt 5)]"
    by simp
  have t: "str_int 1700000000123 = ascii ''1700000000123''"
    by (simp add: ascii_def str_int_def digits.simps)
  have e: "encode_utf8 (canonical_message (ascii ''GET'') (ascii ''/v3/markets/BTC-AUD/trades'')
                          (ascii ''1700000000123'') None)
             = Inr (map of_char ''GET/v3/markets/BTC-AUD/trades1700000000123'')"
    by (simp add: canonical_message_def ascii_def utf8_char_def)
  have h: "buildHeaders (clock_ms example_library) (ascii ''GET'') (apiKey example_client)
             (privateKey example_client) (ascii ''/v3/markets/BTC-AUD/trades'')
             (if JNull \<noteq> JNull then Some (json_dumps example_library JNull) else None)
           = Inr [(ascii ''Accept'', ascii ''application/json''),
                  (ascii ''Accept-Charset'', ascii ''UTF-8''),
                  (ascii ''Content-Type'', ascii ''application/json''),
                  (ascii ''BM-AUTH-APIKEY'', ascii ''key''),
                  (ascii ''BM-AUTH-TIMESTAMP'', ascii ''1700000000123''),
                  (ascii ''BM-AUTH-SIGNATURE'',
                   map unat (b64encode (hmac_sha512 [1, 2, 3]
                     (map of_char ''GET/v3/markets/BTC-AUD/trades1700000000123''))))]"
    by (simp add: buildHeaders_canonical example_library_def example_client_def t
        signMessage_encodable [OF e])
  have g: "ascii ''GET'' \<noteq> ascii ''POST''" "ascii ''GET'' \<noteq> ascii ''PUT''"
    by (simp_all add: ascii_def)
  have u: "base_url @ ascii ''/v3/markets/BTC-AUD/trades'' @ ascii ''?'' @ ascii ''limit=5''
             = ascii ''https://api.btcmarkets.net/v3/markets/BTC-AUD/trades?limit=5''"
    by (simp add: base_url_def ascii_def)
  have v: "urlencode example_library [(ascii ''limit'', JInt 5)] = ascii ''limit=5''"
    by (simp add: example_library_def)
  show ?thesis
    unfolding market_trades_call_def Let_def p q makeHttpCall_get_requests [OF g h]
    by (simp add: u v)
qed

text \<open>
  C2 fails on the code. \<open>makeHttpCall\<close> builds the headers before it appends the query
  string made from \<open>query_params\<close>, and a method that passes its filters that way signs
  the bare path: the request of \<open>market_trades\<close> for \<open>BTC-AUD\<close> with \<open>limit=5\<close> is signed
  over \<open>GET/v3/markets/BTC-AUD/trades\<close> and the timestamp. \<open>tickers\<close> does not: it puts
  the \<open>marketId\<close> query string into the path it passes, and its request for \<open>BTC-AUD\<close> is
  signed over \<open>GET/v3/markets/tickers?marketId=BTC-AUD\<close> and the timestamp.
\<close>

theorem tickers_signs_query_string:
  "requests (fst (tickers example_library example_pandas example_client [ascii ''BTC-AUD''] []))
     = [\<lparr>req_url = ascii ''https://api.btcmarkets.net/v3/markets/tickers?marketId=BTC-AUD'',
         req_data = None,
         req_headers =
           [(ascii ''Accept'', ascii ''application/json''),
            (ascii ''Accept-Charset'', ascii ''UTF-8''),
            (ascii ''Content-Type'', ascii ''application/json''),
            (ascii ''BM-AUTH-APIKEY'', ascii ''key''),
            (ascii ''BM-AUTH-TIMESTAMP'', ascii ''1700000000123''),
            (ascii ''BM-AUTH-SIGNATURE'',
             map unat (b64encode (hmac_sha512 [1, 2, 3]
               (map of_char ''GET/v3/markets/tickers?marketId=BTC-AUD1700000000123''))))],
         req_method = ascii ''GET''\<rparr>]
   \<and> requests (market_trades_call example_library example_client (ascii ''BTC-AUD'') JNull JNull (JInt 5))
     = [\<lparr>req_url = ascii ''https://api.btcmarkets.net/v3/markets/BTC-AUD/trades?limit=5'',
         req_data = None,
         req_headers =
           [(ascii ''Accept'', ascii ''application/json''),
            (ascii ''Accept-Charset'', ascii ''UTF-8''),
            (ascii ''Content-Type'', ascii ''application/json''),
            (ascii ''BM-AUTH-APIKEY'', ascii ''key''),
            (ascii ''BM-AUTH-TIMESTAMP'', ascii ''1700000000123''),
            (ascii ''BM-AUTH-SIGNATURE'',
             map unat (b64encode (hmac_sha512 [1, 2, 3]
               (map of_char ''GET/v3/markets/BTC-AUD/trades1700000000123''))))],
         req_method = ascii ''GET''\<rparr>]"
  using example_tickers_requests example_market_trades_requests by (rule conjI)

lemma buildHeaders_encodable:
  assumes "encode_utf8 (canonical_message method path (str_int time_ms) body) = Inr m"
  shows "buildHeaders time_ms method akey key path body =
           Inr [(ascii ''Accept'', ascii ''application/json''),
                (ascii ''Accept-Charset'', ascii ''UTF-8''),
                (ascii ''Content-Type'', ascii ''application/json''),
                (ascii ''BM-AUTH-APIKEY'', akey),
                (ascii ''BM-AUTH-TIMESTAMP'', str_int time_ms),
                (ascii ''BM-AUTH-SIGNATURE'', map unat (b64encode (hmac_sha512 key m)))]"
  by (simp add: buildHeaders_canonical signMessage_encodable [OF assms])

lemma encode_utf8_append_Inr:
  "encode_utf8 (xs @ ys) = Inr m \<Longrightarrow>
   \<exists>a b. encode_utf8 xs = Inr a \<and> encode_utf8 ys = Inr b \<and> m = a @ b"
  by (auto simp: encode_utf8_append split: sum.splits)

lemma makeHttpCall_post_requests:
  assumes "method = ascii ''POST'' \<or> method = ascii ''PUT''" and "d \<noteq> JNull"
    and "buildHeaders (clock_ms L) method (apiKey self) (privateKey self) path
           (Some (json_dumps L d)) = Inr headers"
    and "encode_utf8 (json_dumps L d) = Inr b"
  shows "requests (makeHttpCall L self method path query_params d)
           = [\<lparr>req_url = base_url @ path
                  @ (case query_params of JDict kvs \<Rightarrow> ascii ''?'' @ urlencode L kvs | _ \<Rightarrow> []),
               req_data = Some (BytesBody b), req_headers = headers, req_method = method\<rparr>]"
  using assms unfolding makeHttpCall_def Let_def
  by (auto split: json.splits)

text \<open>
  C4. In a POST or PUT call with a body, the request handed to \<open>urlopen\<close> carries as its
  body the UTF-8 bytes of the serialized string, and the bytes that are signed end with
  exactly these bytes, after the bytes of method, path and timestamp. The serialized string
  is \<open>json.dumps\<close> of the \<open>data\<close> argument, also when the caller passes a string that is itself
  a serialization.
\<close>

theorem signed_body_is_transmitted_body:
  assumes "method = ascii ''POST'' \<or> method = ascii ''PUT''" and "d \<noteq> JNull"
    and "encode_utf8 (canonical_message method path (str_int (clock_ms L)) (Some (json_dumps L d)))
           = Inr signed_bytes"
  shows "\<exists>r b m signature.
           requests (makeHttpCall L self method path query_params d) = [r]
         \<and> req_data r = Some (BytesBody b)
         \<and> encode_utf8 (json_dumps L d) = Inr b
         \<and> encode_utf8 (method @ path @ str_int (clock_ms L)) = Inr m
         \<and> signed_bytes = m @ b
         \<and> map_of (req_headers r) (ascii ''BM-AUTH-SIGNATURE'') = Some signature
         \<and> decode_utf8 (b64encode (hmac_sha512 (privateKey self) signed_bytes)) = Inr signature"
proof -
  have "canonical_message method path (str_int (clock_ms L)) (Some (json_dumps L d))
          = (method @ path @ str_int (clock_ms L)) @ json_dumps L d"
    by (simp add: canonical_message_def)
  with assms(3) obtain m b where
    m: "encode_utf8 (method @ path @ str_int (clock_ms L)) = Inr m"
    and b: "encode_utf8 (json_dumps L d) = Inr b" and mb: "signed_bytes = m @ b"
    using encode_utf8_append_Inr by metis
  let ?signature = "map unat (b64encode (hmac_sha512 (privateKey self) signed_bytes))"
  let ?headers = "[(ascii ''Accept'', ascii ''application/json''),
                   (ascii ''Accept-Charset'', ascii ''UTF-8''),
                   (ascii ''Content-Type'', ascii ''application/json''),
                   (ascii ''BM-AUTH-APIKEY'', apiKey self),
                   (ascii ''BM-AUTH-TIMESTAMP'', str_int (clock_ms L)),
                   (ascii ''BM-AUTH-SIGNATURE'', ?signature)]"
  let ?r = "\<lparr>req_url = base_url @ path
               @ (case query_params of JDict kvs \<Rightarrow> ascii ''?'' @ urlencode L kvs | _ \<Rightarrow> []),
             req_data = Some (BytesBody b), req_headers = ?headers, req_method = method\<rparr>"
  have h: "buildHeaders (clock_ms L) method (apiKey self) (privateKey self) path
             (Some (json_dumps L d)) = Inr ?headers"
    by (rule buildHeaders_encodable [OF assms(3)])
  have "requests (makeHttpCall L self method path query_params d) = [?r]"
    by (rule makeHttpCall_post_requests [OF assms(1,2) h b])
  moreover have "req_data ?r = Some (BytesBody b)"
    by simp
  moreover have "map_of (req_headers ?r) (ascii ''BM-AUTH-SIGNATURE'') = Some ?signature"
    by (simp only: request.select_convs header_lookups(2))
  moreover have "decode_utf8 (b64encode (hmac_sha512 (privateKey self) signed_bytes)) = Inr ?signature"
    by (rule decode_b64encode)
  ultimately show ?thesis
    using b m mb by blast
qed

theorem signed_body_is_transmitted_body_witness:
  "encode_utf8 (canonical_message (ascii ''PUT'') (ascii ''/v3/orders/7'') (str_int (clock_ms example_library))
                  (Some (json_dumps example_library (JStr (ascii ''{}'')))))
     = Inr (map of_char ''PUT/v3/orders/71700000000123'' @ [34, 123, 125, 34])
   \<and> (\<exists>r signature.
          requests (makeHttpCall example_library example_client (ascii ''PUT'') (ascii ''/v3/orders/7'')
                      JNull (JStr (ascii ''{}''))) = [r]
        \<and> req_data r = Some (BytesBody [34, 123, 125, 34])
        \<and> map_of (req_headers r) (ascii ''BM-AUTH-SIGNATURE'') = Some signature
        \<and> decode_utf8 (b64encode (hmac_sha512 [1, 2, 3]
                          (map of_char ''PUT/v3/orders/71700000000123'' @ [34, 123, 125, 34])))
            = Inr signature)"
proof -
  have a: "ascii ''PUT'' = ascii ''POST'' \<or> ascii ''PUT'' = ascii ''PUT''"
    by simp
  have n: "JStr (ascii ''{}'') \<noteq> JNull"
    by simp
  have e: "encode_utf8 (canonical_message (ascii ''PUT'') (ascii ''/v3/orders/7'')
                          (str_int (clock_ms example_library))
                          (Some (json_dumps example_library (JStr (ascii ''{}'')))))
             = Inr (map of_char ''PUT/v3/orders/71700000000123'' @ [34, 123, 125, 34])"
    by (simp add: canonical_message_def example_library_def ascii_def str_int_def digits.simps
        utf8_char_def)
  have d: "encode_utf8 (json_dumps example_library (JStr (ascii ''{}''))) = Inr [34, 123, 125, 34]"
    by (simp add: example_library_def utf8_char_def)
  have k: "privateKey example_client = [1, 2, 3]"
    by (simp add: example_client_def)
  obtain r b signature where
    "requests (makeHttpCall example_library example_client (ascii ''PUT'') (ascii ''/v3/orders/7'')
                 JNull (JStr (ascii ''{}''))) = [r]"
    and "req_data r = Some (BytesBody b)"
    and "encode_utf8 (json_dumps example_library (JStr (ascii ''{}''))) = Inr b"
    and "map_of (req_headers r) (ascii ''BM-AUTH-SIGNATURE'') = Some signature"
    and "decode_utf8 (b64encode (hmac_sha512 [1, 2, 3]
                        (map of_char ''PUT/v3/orders/71700000000123'' @ [34, 123, 125, 34])))
           = Inr signature"
    using signed_body_is_transmitted_body [OF a n e, of example_client JNull] unfolding k by blast
  with d e show ?thesis
    by (intro conjI exI [of _ r] exI [of _ signature]) simp_all
qed

text \<open>
  C9 fails on the code: \<open>handle_error\<close> replaces the message it is given by the constant
  \<open>No market_ids provided\<close>. A stop order without trigger price, under the raising policy,
  raises \<open>ValueError\<close> with that constant and not with the message of the failure site,
  \<open>Stop requires triggerPrice\<close>. No request is issued.
\<close>

theorem place_order_error_message:
  "place_order L \<lparr>apiKey = akey, privateKey = key, exception_on_error = True\<rparr> market_id price amount
     side (ascii ''Stop'') JNull targetAmount timeInForce postOnly selfTrade client_order_id
     = \<lparr>returned = Inl (ValueError (ascii ''No market_ids provided'')), requests = [], printed = []\<rparr>
   \<and> ascii ''No market_ids provided'' \<noteq> ascii ''Stop'' @ ascii '' requires triggerPrice''"
  by (simp add: place_order_def handle_error_def ascii_def)

lemma makeHttpCall_get_returned:
  assumes "method \<noteq> ascii ''POST''" and "method \<noteq> ascii ''PUT''"
    and "buildHeaders (clock_ms L) method (apiKey self) (privateKey self) path None = Inr headers"
  shows "returned (makeHttpCall L self method path query_params JNull)
           = read_reply L self (urlopen L
               \<lparr>req_url = base_url @ path
                  @ (case query_params of JDict kvs \<Rightarrow> ascii ''?'' @ urlencode L kvs | _ \<Rightarrow> []),
                req_data = None, req_headers = headers, req_method = method\<rparr>)"
  using assms unfolding makeHttpCall_def Let_def
  by (auto split: json.splits)

lemma example_tickers_returned:
  "returned (makeHttpCall example_library example_client (ascii ''GET'')
               (tickers_path [ascii ''BTC-AUD'']) JNull JNull) = Inr (JList [])"
proof -
  have e: "encode_utf8 (canonical_message (ascii ''GET'') (tickers_path [ascii ''BTC-AUD''])
                          (str_int (clock_ms example_library)) None)
             = Inr (map of_char ''GET/v3/markets/tickers?marketId=BTC-AUD1700000000123'')"
    by (simp add: canonical_message_def tickers_path_def example_library_def ascii_def str_int_def
        digits.simps utf8_char_def)
  have g: "ascii ''GET'' \<noteq> ascii ''POST''" "ascii ''GET'' \<noteq> ascii ''PUT''"
    by (simp_all add: ascii_def)
  have h: "buildHeaders (clock_ms example_library) (ascii ''GET'') (apiKey example_client)
             (privateKey example_client) (tickers_path [ascii ''BTC-AUD'']) None
           = Inr [(ascii ''Accept'', ascii ''application/json''),
                  (ascii ''Accept-Charset'', ascii ''UTF-8''),
                  (ascii ''Content-Type'', ascii ''application/json''),
                  (ascii ''BM-AUTH-APIKEY'', apiKey example_client),
                  (ascii ''BM-AUTH-TIMESTAMP'', str_int (clock_ms example_library)),
                  (ascii ''BM-AUTH-SIGNATURE'',
                   map unat (b64encode (hmac_sha512 (privateKey example_client)
                     (map of_char ''GET/v3/markets/tickers?marketId=BTC-AUD1700000000123''))))]"
    by (simp add: buildHeaders_canonical signMessage_encodable [OF e])
  have r: "read_reply example_library example_client (urlopen example_library req) = Inr (JList [])" for req
    by (simp add: read_reply_def example_library_def ascii_def)
  show ?thesis
    unfolding makeHttpCall_get_returned [OF g h] by (rule r)
qed

text \<open>
  C8 fails on the code. On the empty list with a declared field, \<open>make_df\<close> raises
  \<open>KeyError\<close>: the table built from \<open>[]\<close> has no column to select. The client meets this
  input: when the server answers \<open>tickers\<close> with the empty list, the call raises
  \<open>KeyError\<close> instead of returning an empty table.
\<close>

theorem make_df_empty_list_raises:
  "make_df example_pandas 0 (Some [ascii ''price'']) None [JList []] = (Inl KeyError, [JList []])
   \<and> returned (fst (tickers example_library example_pandas example_client [ascii ''BTC-AUD''] []))
     = Inl KeyError"
proof
  show "make_df example_pandas 0 (Some [ascii ''price'']) None [JList []] = (Inl KeyError, [JList []])"
    by (simp add: make_df_def is_error_message_def pd_DataFrame_empty process_panda_def
        convert_fields_no_columns)
next
  have m: "make_df example_pandas 0 (Some (n # ns)) t [JList []] = (Inl KeyError, [JList []])" for n ns t
    by (simp add: make_df_def is_error_message_def pd_DataFrame_empty process_panda_def
        convert_fields_no_columns)
  show "returned (fst (tickers example_library example_pandas example_client [ascii ''BTC-AUD''] []))
          = Inl KeyError"
    unfolding tickers_def Let_def
    by (simp add: example_tickers_returned alloc_def m)
qed

end
